theory Spec2Isabelle
  imports Main
begin

section \<open>Values thrown by the SDK\<close>

text \<open>
  The SDK is TypeScript: a function either returns or throws. A throw is the left
  summand of the result type. The constructors are the classes of thrown values that
  \<^verbatim>\<open>sendTx\<close> in \<^verbatim>\<open>src/util.ts\<close> tells apart in its \<^verbatim>\<open>catch\<close> block, the two
  built-in classes the language itself raises in the modelled code, and the two errors
  of \<^verbatim>\<open>@solana/spl-token\<close>: the one by which \<^verbatim>\<open>getAccount\<close> reports that a token account
  does not exist, and the one that \<^verbatim>\<open>getAssociatedTokenAddress\<close> throws for an owner
  that is off the curve. \<open>SendTransactionError message logs\<close> holds the logs the error
  was constructed with, if any (what its \<^verbatim>\<open>getLogs\<close> does with them is modelled below);
  \<open>ProgramError msg message logs\<close> is the one of \<^verbatim>\<open>@coral-xyz/anchor\<close>; \<open>Thrown s\<close> is any
  other thrown value, \<open>s\<close> being its \<^verbatim>\<open>String(e)\<close>.
\<close>

datatype exn =
    RangeError string
  | TypeError string
  | Error string
  | SendTransactionError string "string list option"
  | ProgramError string string "string list option"
  | TokenAccountNotFoundError
  | TokenOwnerOffCurveError
  | Thrown string

section \<open>Slippage arithmetic (\<^verbatim>\<open>src/util.ts\<close>)\<close>

text \<open>
  Amounts and basis points are \<^verbatim>\<open>bigint\<close>: signed integers of unbounded size, so
  \<^typ>\<open>int\<close>. The operator \<^verbatim>\<open>/\<close> on \<^verbatim>\<open>bigint\<close> truncates towards zero and throws a
  \<^verbatim>\<open>RangeError\<close> when the divisor is \<^verbatim>\<open>0n\<close>; \<^term>\<open>(div)\<close> on \<^typ>\<open>int\<close> rounds
  towards minus infinity, so the truncation is written out.
\<close>

definition bigint_quot :: "int \<Rightarrow> int \<Rightarrow> int" where
  "bigint_quot a b = sgn a * sgn b * (\<bar>a\<bar> div \<bar>b\<bar>)"

definition bigint_div :: "int \<Rightarrow> int \<Rightarrow> exn + int" where
  "bigint_div a b =
     (if b = 0 then Inl (RangeError ''Division by zero'') else Inr (bigint_quot a b))"

text \<open>
  \<^verbatim>\<open>
  export const calculateWithSlippageBuy = (amount: bigint, basisPoints: bigint) => {
    return amount + (amount * basisPoints) / 10000n;
  };
  export const calculateWithSlippageSell = (amount: bigint, basisPoints: bigint) => {
    return amount - (amount * basisPoints) / 10000n;
  };
  \<close>
\<close>

definition calculateWithSlippageBuy :: "int \<Rightarrow> int \<Rightarrow> exn + int" where
  "calculateWithSlippageBuy amount basisPoints =
     (case bigint_div (amount * basisPoints) 10000 of
        Inl e \<Rightarrow> Inl e
      | Inr q \<Rightarrow> Inr (amount + q))"

definition calculateWithSlippageSell :: "int \<Rightarrow> int \<Rightarrow> exn + int" where
  "calculateWithSlippageSell amount basisPoints =
     (case bigint_div (amount * basisPoints) 10000 of
        Inl e \<Rightarrow> Inl e
      | Inr q \<Rightarrow> Inr (amount - q))"

section \<open>Accounts, instructions and transactions\<close>

text \<open>
  A public key is either given from outside or derived: the program-derived and
  associated-token addresses are computed by hashing in \<^verbatim>\<open>@solana/web3.js\<close> and
  \<^verbatim>\<open>@solana/spl-token\<close>; here each derivation is a constructor of its seeds. The
  arguments of \<open>AssociatedTokenAddress\<close> are the mint and the owner, in the order of
  \<^verbatim>\<open>getAssociatedTokenAddress(mint, owner, ...)\<close>. A key given from outside is either
  a point of the ed25519 curve (\<open>Address\<close>: the public key of a keypair is one) or
  not (\<open>OffCurveAddress\<close>: an address derived by some other program); the derived
  addresses are off the curve by construction.
\<close>

datatype pubkey =
    Address string
  | OffCurveAddress string
  | BondingCurvePDA pubkey
  | MetadataPDA pubkey
  | GlobalAccountPDA
  | AssociatedTokenAddress pubkey pubkey

text \<open>\<^verbatim>\<open>PublicKey.isOnCurve\<close>.\<close>

fun isOnCurve :: "pubkey \<Rightarrow> bool" where
  "isOnCurve (Address s) = True"
| "isOnCurve (OffCurveAddress s) = False"
| "isOnCurve (BondingCurvePDA k) = False"
| "isOnCurve (MetadataPDA k) = False"
| "isOnCurve GlobalAccountPDA = False"
| "isOnCurve (AssociatedTokenAddress k owner) = False"

text \<open>
  \<^verbatim>\<open>getAssociatedTokenAddress(mint, owner, allowOwnerOffCurve)\<close> of
  \<^verbatim>\<open>@solana/spl-token\<close>: it throws for an owner off the curve unless that is allowed.
\<close>

definition getAssociatedTokenAddress :: "pubkey \<Rightarrow> pubkey \<Rightarrow> bool \<Rightarrow> exn + pubkey" where
  "getAssociatedTokenAddress mintKey owner allowOwnerOffCurve =
     (if \<not> allowOwnerOffCurve \<and> \<not> isOnCurve owner then Inl TokenOwnerOffCurveError
      else Inr (AssociatedTokenAddress mintKey owner))"

text \<open>
  The encoding of an instruction argument of type \<^verbatim>\<open>u64\<close> from \<^verbatim>\<open>new BN(x.toString())\<close>:
  the eight-byte little-endian form of the magnitude (the sign is not written), and an
  error when the magnitude does not fit. The result is the number the bytes stand for.
\<close>

definition encode_u64 :: "int \<Rightarrow> exn + int" where
  "encode_u64 x =
     (if \<bar>x\<bar> < 2 ^ 64 then Inr \<bar>x\<bar>
      else Inl (Error ''byte array longer than desired length''))"

text \<open>A \<^verbatim>\<open>Keypair\<close>; the secret key plays no part in what is modelled.\<close>

record Keypair =
  publicKey :: pubkey

text \<open>
  The instructions the SDK builds, each with the arguments the source passes:
  \<^item> \<open>SetComputeUnitLimit units\<close>, \<open>SetComputeUnitPrice microLamports\<close>;
  \<^item> \<open>SystemTransfer fromPubkey toPubkey lamports\<close>;
  \<^item> \<open>PumpCreate name symbol uri mint associatedBondingCurve metadata user\<close>;
  \<^item> \<open>CreateAssociatedTokenAccount payer associatedToken owner mint\<close>;
  \<^item> \<open>PumpBuy amount solAmount feeRecipient mint associatedBondingCurve associatedUser user\<close>,
    the two amounts as encoded.
  A \<^verbatim>\<open>Transaction\<close> is its list of instructions: \<^verbatim>\<open>tx.add(other)\<close> appends the
  instructions of \<^verbatim>\<open>other\<close>.
\<close>

datatype instruction =
    SetComputeUnitLimit int
  | SetComputeUnitPrice int
  | SystemTransfer pubkey pubkey int
  | PumpCreate string string string pubkey pubkey pubkey pubkey
  | CreateAssociatedTokenAccount pubkey pubkey pubkey pubkey
  | PumpBuy int int pubkey pubkey pubkey pubkey pubkey

type_synonym Transaction = "instruction list"

text \<open>
  A \<^verbatim>\<open>VersionedTransaction\<close>: the compiled message (payer, recent blockhash,
  instructions) and the public keys of the keypairs that signed it so far. A serialized
  transaction (base64) is represented by the transaction it encodes.
\<close>

record VersionedTransaction =
  payerKey :: pubkey
  recentBlockhash :: string
  instructions :: "instruction list"
  signatures :: "pubkey list"

definition sign :: "VersionedTransaction \<Rightarrow> Keypair list \<Rightarrow> VersionedTransaction" where
  "sign vtx signers = vtx\<lparr>signatures := signatures vtx @ map publicKey signers\<rparr>"

section \<open>Requests and results (\<^verbatim>\<open>src/types.ts\<close>, \<^verbatim>\<open>src/jito.ts\<close>, \<^verbatim>\<open>src/pumpfun.ts\<close>)\<close>

text \<open>
  An optional field of the source (\<^verbatim>\<open>field?: T\<close>) is an \<^typ>\<open>'a option\<close>. The
  \<^verbatim>\<open>number\<close> fields hold lamport and compute-unit counts and are modelled as
  \<^typ>\<open>int\<close>. The \<^verbatim>\<open>commitment\<close> and \<^verbatim>\<open>finality\<close> parameters are only handed on to the
  RPC node and are left out.
\<close>

datatype file_value = Blob string | NotBlob

record CreateTokenMetadata =
  name :: string
  symbol :: string
  description :: string
  file_field :: file_value
  twitter :: "string option"
  telegram :: "string option"
  website :: "string option"

record PriorityFee =
  unitLimit :: int
  unitPrice :: int

record JitoConfig =
  jitoEnabled :: bool
  endpoint :: "string option"
  tipLampports :: "int option"

record BundledBuy =
  amountInSol :: int
  signer :: Keypair

record CreateAndBuyParams =
  creator :: Keypair
  mint :: Keypair
  createTokenMetadata :: CreateTokenMetadata
  buyAmountSol :: int
  slippageBasisPoints :: "int option"
  priorityFees :: "PriorityFee option"
  jitoConfig :: "JitoConfig option"
  bundledBuys :: "BundledBuy list option"

text \<open>
  The \<^verbatim>\<open>error\<close> field of a \<^verbatim>\<open>TransactionResult\<close> holds one of three things in the
  modelled code: the string \<^verbatim>\<open>"Transaction failed"\<close>, a plain \<^verbatim>\<open>Error\<close> (its
  message), or a \<^verbatim>\<open>TransactionError\<close> (message, logs, filtered error logs).
\<close>

datatype result_error =
    ErrString string
  | ErrError string
  | ErrTransactionError string "string list option" "string list option"

text \<open>
  A \<^verbatim>\<open>VersionedTransactionResponse\<close>: the signature it was fetched by and the error
  of its execution (\<^verbatim>\<open>meta.err\<close>), \<open>None\<close> when the transaction succeeded on chain.
\<close>

datatype tx_response = TxResponse string "string option"

record TransactionResult =
  signature :: "string option"
  error :: "result_error option"
  results :: "tx_response option"
  success :: bool

text \<open>JSON values, and the truthiness test that \<^verbatim>\<open>if (response.error)\<close> applies.\<close>

datatype json =
    JNull
  | JBool bool
  | JNumber int
  | JString string
  | JArray "json list"
  | JObject "(string \<times> json) list"

fun truthy :: "json option \<Rightarrow> bool" where
  "truthy None = False"
| "truthy (Some JNull) = False"
| "truthy (Some (JBool b)) = b"
| "truthy (Some (JNumber n)) = (n \<noteq> 0)"
| "truthy (Some (JString s)) = (s \<noteq> [])"
| "truthy (Some (JArray xs)) = True"
| "truthy (Some (JObject kvs)) = True"

record bundle_response =
  resp_result :: "string option"
  resp_error :: "json option"

record http_response =
  status :: nat
  body :: string

record upload_response =
  metadataUri :: string

text \<open>
  The decoded global configuration account. The class \<^verbatim>\<open>GlobalAccount\<close>
  (\<^verbatim>\<open>src/globalAccount.ts\<close>) is not among the sources; the orchestrator reads only its
  field \<^verbatim>\<open>feeRecipient\<close> and calls its method \<^verbatim>\<open>getInitialBuyPrice\<close>, which is a
  parameter of the environment below.
\<close>

record GlobalAccount =
  feeRecipient :: pubkey
  initialVirtualTokenReserves :: int
  initialVirtualSolReserves :: int
  initialRealTokenReserves :: int
  feeBasisPoints :: int

text \<open>
  The decoded bonding-curve account (\<^verbatim>\<open>src/bondingCurveAccount.ts\<close>, not among the
  sources either); its method \<^verbatim>\<open>getBuyPrice\<close> is a parameter of the environment.
\<close>

record BondingCurveAccount =
  virtualTokenReserves :: int
  virtualSolReserves :: int
  realTokenReserves :: int
  realSolReserves :: int
  tokenTotalSupply :: int
  complete :: bool

section \<open>The outside world\<close>

text \<open>
  Every call that leaves the process is recorded as an event; the trace of events is
  the state threaded through the SDK. What the outside answers is given by an
  environment of oracles, each a function of the trace so far (so that two calls of
  the same operation may be answered differently) and of the call's arguments.
\<close>

datatype event =
    EvUploadMetadata CreateTokenMetadata
  | EvGetAccountInfo pubkey
  | EvGetAccount pubkey
  | EvMathRandom
  | EvGetLatestBlockhash
  | EvSendBundle "VersionedTransaction list" string
  | EvSendTransaction VersionedTransaction
  | EvConfirmTransaction string
  | EvGetTransaction string
  | EvGetLogs

type_synonym trace = "event list"

type_synonym bytes = "nat list"

text \<open>
  \<^item> \<open>fetch_ipfs\<close>: the POST to the metadata gateway and the reading of its body;
  \<^item> \<open>JSON_parse\<close>: \<^verbatim>\<open>JSON.parse\<close> of the gateway's answer, \<open>None\<close> when it throws;
  \<^item> \<open>rpc_getAccountInfo\<close>: \<^verbatim>\<open>connection.getAccountInfo\<close>, \<open>Inr None\<close> for \<^verbatim>\<open>null\<close>;
  \<^item> \<open>GlobalAccount_fromBuffer\<close>, \<open>getInitialBuyPrice\<close>: the codec and the quote of
    \<^verbatim>\<open>src/globalAccount.ts\<close>;
  \<^item> \<open>BondingCurveAccount_fromBuffer\<close>, \<open>getBuyPrice\<close>: the codec and the quote of
    \<^verbatim>\<open>src/bondingCurveAccount.ts\<close>;
  \<^item> \<open>spl_getAccount\<close>: \<^verbatim>\<open>getAccount\<close> of \<^verbatim>\<open>@solana/spl-token\<close>, which returns the
    token account or throws (\<open>TokenAccountNotFoundError\<close> when there is none);
  \<^item> \<open>math_random n\<close>: \<^verbatim>\<open>Math.floor(Math.random() * n)\<close>;
  \<^item> \<open>rpc_getLatestBlockhash\<close>, \<open>rpc_sendTransaction\<close>, \<open>rpc_confirmTransaction\<close>,
    \<open>rpc_getTransaction\<close>: the calls on \<^verbatim>\<open>connection\<close>; the answer of
    \<open>rpc_confirmTransaction\<close> is the \<^verbatim>\<open>value.err\<close> of the confirmation, \<open>None\<close> when the
    transaction succeeded on chain;
  \<^item> \<open>rpc_getLogs\<close>: the fetch that \<^verbatim>\<open>SendTransactionError.getLogs(connection)\<close> makes
    when the error was constructed without logs: the log messages of the transaction,
    or the rejection \<^verbatim>\<open>Log messages not found\<close>;
  \<^item> \<open>jito_sendBundle\<close>: the POST to the block engine and the parsing of its answer;
  \<^item> \<open>AnchorError_parse\<close>: \<^verbatim>\<open>AnchorError.parse(logs)?.error?.errorMessage\<close>;
  \<^item> \<open>JSON_stringify\<close>: \<^verbatim>\<open>JSON.stringify\<close>.
\<close>

record env =
  fetch_ipfs :: "trace \<Rightarrow> CreateTokenMetadata \<Rightarrow> exn + http_response"
  JSON_parse :: "string \<Rightarrow> upload_response option"
  rpc_getAccountInfo :: "trace \<Rightarrow> pubkey \<Rightarrow> exn + bytes option"
  GlobalAccount_fromBuffer :: "bytes \<Rightarrow> exn + GlobalAccount"
  getInitialBuyPrice :: "GlobalAccount \<Rightarrow> int \<Rightarrow> exn + int"
  BondingCurveAccount_fromBuffer :: "bytes \<Rightarrow> exn + BondingCurveAccount"
  getBuyPrice :: "BondingCurveAccount \<Rightarrow> int \<Rightarrow> exn + int"
  spl_getAccount :: "trace \<Rightarrow> pubkey \<Rightarrow> exn + unit"
  math_random :: "trace \<Rightarrow> nat \<Rightarrow> nat"
  rpc_getLatestBlockhash :: "trace \<Rightarrow> exn + string"
  rpc_sendTransaction :: "trace \<Rightarrow> VersionedTransaction \<Rightarrow> exn + string"
  rpc_confirmTransaction :: "trace \<Rightarrow> string \<Rightarrow> exn + string option"
  rpc_getLogs :: "trace \<Rightarrow> exn + string list"
  rpc_getTransaction :: "trace \<Rightarrow> string \<Rightarrow> exn + tx_response option"
  jito_sendBundle :: "trace \<Rightarrow> VersionedTransaction list \<Rightarrow> string \<Rightarrow> exn + bundle_response"
  AnchorError_parse :: "string list \<Rightarrow> exn + string option"
  JSON_stringify :: "json option \<Rightarrow> string"

text \<open>
  An asynchronous SDK function takes the trace and gives back its outcome (a thrown
  value or a result) and the extended trace. \<open>io_bind\<close> is sequencing with \<^verbatim>\<open>await\<close>,
  \<open>io_catch\<close> is \<^verbatim>\<open>try { ... } catch (e) { ... }\<close>, \<open>io_call\<close> is one call to the
  outside world.
\<close>

type_synonym 'a io = "trace \<Rightarrow> (exn + 'a) \<times> trace"

definition io_return :: "'a \<Rightarrow> 'a io" where
  "io_return x tr = (Inr x, tr)"

definition io_throw :: "exn \<Rightarrow> 'a io" where
  "io_throw e tr = (Inl e, tr)"

definition io_lift :: "exn + 'a \<Rightarrow> 'a io" where
  "io_lift r tr = (r, tr)"

definition io_bind :: "'a io \<Rightarrow> ('a \<Rightarrow> 'b io) \<Rightarrow> 'b io" where
  "io_bind m f tr = (case m tr of (Inl e, tr') \<Rightarrow> (Inl e, tr') | (Inr x, tr') \<Rightarrow> f x tr')"

definition io_catch :: "'a io \<Rightarrow> (exn \<Rightarrow> 'a io) \<Rightarrow> 'a io" where
  "io_catch m h tr = (case m tr of (Inl e, tr') \<Rightarrow> h e tr' | (Inr x, tr') \<Rightarrow> (Inr x, tr'))"

definition io_call :: "event \<Rightarrow> (trace \<Rightarrow> exn + 'a) \<Rightarrow> 'a io" where
  "io_call ev oracle tr = (oracle tr, tr @ [ev])"

section \<open>The relay client (\<^verbatim>\<open>src/jito.ts\<close>)\<close>

definition JITO_MAINNET_ENDPOINTS :: "string list" where
  "JITO_MAINNET_ENDPOINTS =
     [''https://amsterdam.mainnet.block-engine.jito.wtf'',
      ''https://mainnet.block-engine.jito.wtf'',
      ''https://ny.mainnet.block-engine.jito.wtf'',
      ''https://frankfurt.mainnet.block-engine.jito.wtf'',
      ''https://tokyo.mainnet.block-engine.jito.wtf'',
      ''https://slc.mainnet.block-engine.jito.wtf'']"

definition TIP_ACCOUNTS :: "string list" where
  "TIP_ACCOUNTS =
     [''96gYZGLnJYVFmbjzopPSU6QiEV5fGqZNyN9nmNhvrZU5'',
      ''HFqU5x63VTqvQss8hp11i4wVV8bD44PvwucfZ2bU7gRe'',
      ''Cw8CFyM9FkoMi7K7Crf6HNQqf4uEMzpKw6QNghXLvLkY'',
      ''ADaUMid9yfUytqMBgopwjb2DTLSokTSzL1zt6iGPaS49'',
      ''DfXygSm4jCyNCybVYYK6DwvWqjKee8pbDmJGcLWNDXjh'',
      ''ADuUkR4vqLUMWXxW9gh6D6L8pMSawimctcNZ5pGwDcEt'',
      ''DttWaMuVvTiduZRnguLF7jNxTgiMBZ1hyAumKUiL2KRL'',
      ''3AVi9Tg9Uo68tJfuvoKvqKNWKkC5wPdSSdeBnizKZ6jT'']"

definition TIP_LAMPORTS :: int where
  "TIP_LAMPORTS = 100000"

text \<open>
  \<^verbatim>\<open>xs[Math.floor(Math.random() * xs.length)]\<close>: \<^verbatim>\<open>Math.random()\<close> is below \<open>1\<close>, so
  the index is below the length; the oracle's answer is reduced modulo the length to
  say so.
\<close>

definition random_element :: "env \<Rightarrow> string list \<Rightarrow> string io" where
  "random_element en xs =
     io_bind (io_call EvMathRandom (\<lambda>tr. Inr (math_random en tr (length xs))))
       (\<lambda>i. io_return (xs ! (i mod length xs)))"

definition getRandomJitoMainnetEndpoint :: "env \<Rightarrow> string io" where
  "getRandomJitoMainnetEndpoint en = random_element en JITO_MAINNET_ENDPOINTS"

definition getRandomTipAccount :: "env \<Rightarrow> string io" where
  "getRandomTipAccount en = random_element en TIP_ACCOUNTS"

text \<open>
  \<^verbatim>\<open>sendBundle(transactions, endpoint)\<close>: picks an endpoint when given none (the
  empty string is the falsy endpoint), posts the bundle and returns the parsed answer.
\<close>

definition sendBundle :: "env \<Rightarrow> VersionedTransaction list \<Rightarrow> string \<Rightarrow> bundle_response io" where
  "sendBundle en transactions ep =
     io_bind (if ep = [] then getRandomJitoMainnetEndpoint en else io_return ep)
       (\<lambda>ep'. io_call (EvSendBundle transactions ep') (\<lambda>tr. jito_sendBundle en tr transactions ep'))"

text \<open>
  The three uses of an optional relay configuration:
  \<^verbatim>\<open>jitoConfig?.jitoEnabled\<close>, \<^verbatim>\<open>jitoConfig.tipLampports || TIP_LAMPORTS\<close> (an absent
  tip and the tip \<open>0\<close> are falsy) and \<^verbatim>\<open>endpoint || getRandomJitoMainnetEndpoint()\<close>.
\<close>

definition jito_on :: "JitoConfig option \<Rightarrow> bool" where
  "jito_on cfg = (case cfg of None \<Rightarrow> False | Some j \<Rightarrow> jitoEnabled j)"

definition tip_or_default :: "JitoConfig option \<Rightarrow> int" where
  "tip_or_default cfg =
     (case cfg of
        None \<Rightarrow> TIP_LAMPORTS
      | Some j \<Rightarrow> (case tipLampports j of
                    None \<Rightarrow> TIP_LAMPORTS
                  | Some n \<Rightarrow> if n \<noteq> 0 then n else TIP_LAMPORTS))"

definition endpoint_or_random :: "env \<Rightarrow> string option \<Rightarrow> string io" where
  "endpoint_or_random en ep =
     (case ep of
        None \<Rightarrow> getRandomJitoMainnetEndpoint en
      | Some e \<Rightarrow> if e \<noteq> [] then io_return e else getRandomJitoMainnetEndpoint en)"

definition config_endpoint :: "JitoConfig option \<Rightarrow> string option" where
  "config_endpoint cfg = (case cfg of None \<Rightarrow> None | Some j \<Rightarrow> endpoint j)"

section \<open>Sending one transaction (\<^verbatim>\<open>src/util.ts\<close>)\<close>

text \<open>\<^verbatim>\<open>s.includes(pat)\<close> on strings.\<close>

fun str_includes :: "string \<Rightarrow> string \<Rightarrow> bool" where
  "str_includes [] pat = (pat = [])"
| "str_includes (c # cs) pat = (take (length pat) (c # cs) = pat \<or> str_includes cs pat)"

text \<open>The constructor of \<^verbatim>\<open>TransactionError\<close> keeps the log lines with a failure marker.\<close>

definition errorLogs_of :: "string list option \<Rightarrow> string list option" where
  "errorLogs_of logs =
     map_option (filter (\<lambda>log. str_includes log ''failed'' \<or> str_includes log ''error''
                               \<or> str_includes log ''Error'' \<or> str_includes log ''exceeded'')) logs"

definition failed_with :: "string \<Rightarrow> string list option \<Rightarrow> TransactionResult" where
  "failed_with errorMessage logs =
     \<lparr>signature = None,
      error = Some (ErrTransactionError errorMessage logs (errorLogs_of logs)),
      results = None,
      success = False\<rparr>"

text \<open>\<^verbatim>\<open>e instanceof Error ? e.message : String(e)\<close>.\<close>

fun exn_message :: "exn \<Rightarrow> string" where
  "exn_message (RangeError m) = m"
| "exn_message (TypeError m) = m"
| "exn_message (Error m) = m"
| "exn_message (SendTransactionError m logs) = m"
| "exn_message (ProgramError pm m logs) = m"
| "exn_message TokenAccountNotFoundError = []"
| "exn_message TokenOwnerOffCurveError = []"
| "exn_message (Thrown s) = s"

text \<open>
  \<^verbatim>\<open>e.getLogs(connection)\<close> of a \<^verbatim>\<open>SendTransactionError\<close>: the logs the error holds, or
  else a fetch from the node, which gives the logs or rejects. It never gives
  \<^verbatim>\<open>undefined\<close>.
\<close>

definition getLogs :: "env \<Rightarrow> string list option \<Rightarrow> string list io" where
  "getLogs en transactionLogs =
     (case transactionLogs of
        Some logs \<Rightarrow> io_return logs
      | None \<Rightarrow> io_call EvGetLogs (rpc_getLogs en))"

text \<open>
  The \<^verbatim>\<open>catch\<close> block of \<^verbatim>\<open>sendTx\<close> (lines 161 to 199). For a
  \<^verbatim>\<open>SendTransactionError\<close> it awaits \<^verbatim>\<open>e.getLogs(connection)\<close> first (line 166), and a
  rejection of that is thrown out of \<^verbatim>\<open>sendTx\<close>; otherwise the caught value becomes a
  result with \<^verbatim>\<open>success: false\<close>.
\<close>

fun sendTx_catch :: "env \<Rightarrow> exn \<Rightarrow> TransactionResult io" where
  "sendTx_catch en (SendTransactionError m transactionLogs) =
     io_bind (getLogs en transactionLogs)
       (\<lambda>logs.
          io_return
            (failed_with
               (if list_ex (\<lambda>log. str_includes log ''exceeded CUs meter'') logs
                then ''Transaction failed: Compute budget exceeded. Try increasing compute unit limit.''
                else if str_includes m ''custom program error:''
                then (case AnchorError_parse en logs of
                        Inl e \<Rightarrow> ''Program Error: '' @ m
                      | Inr None \<Rightarrow> ''Anchor Error: '' @ ''Unknown anchor error''
                      | Inr (Some am) \<Rightarrow>
                          ''Anchor Error: ''
                            @ (if am \<noteq> [] then am else ''Unknown anchor error''))
                else ''Transaction Error: '' @ m)
               (Some logs)))"
| "sendTx_catch en (ProgramError pm m logs) =
     io_return (failed_with (''Program Error: '' @ (if pm \<noteq> [] then pm else m)) logs)"
| "sendTx_catch en e = io_return (failed_with (''Unknown Error: '' @ exn_message e) None)"

definition buildVersionedTx :: "env \<Rightarrow> pubkey \<Rightarrow> Transaction \<Rightarrow> VersionedTransaction io" where
  "buildVersionedTx en payer tx =
     io_bind (io_call EvGetLatestBlockhash (rpc_getLatestBlockhash en))
       (\<lambda>blockHash. io_return \<lparr>payerKey = payer, recentBlockhash = blockHash,
                               instructions = tx, signatures = []\<rparr>)"

definition BASE58_ALPHABET :: string where
  "BASE58_ALPHABET = ''123456789ABCDEFGHJKLMNPQRSTUVWXYZabcdefghijkmnopqrstuvwxyz''"

definition is_base58 :: "string \<Rightarrow> bool" where
  "is_base58 s = list_all (\<lambda>c. c \<in> set BASE58_ALPHABET) s"

text \<open>\<^verbatim>\<open>getTxDetails\<close>: \<open>None\<close> is the \<^verbatim>\<open>null\<close> it returns for a signature that is not
  base58 or a transaction the node does not know. The answer of
  \<^verbatim>\<open>confirmTransaction\<close> is awaited and not looked at.\<close>

definition getTxDetails :: "env \<Rightarrow> string \<Rightarrow> tx_response option io" where
  "getTxDetails en sig =
     (if \<not> is_base58 sig then io_return None
      else io_bind (io_call EvGetLatestBlockhash (rpc_getLatestBlockhash en))
        (\<lambda>latestBlockHash.
           io_bind (io_call (EvConfirmTransaction sig) (\<lambda>tr. rpc_confirmTransaction en tr sig))
             (\<lambda>confirmation.
                io_call (EvGetTransaction sig) (\<lambda>tr. rpc_getTransaction en tr sig))))"

definition priority_instructions :: "PriorityFee option \<Rightarrow> instruction list" where
  "priority_instructions pf =
     (case pf of
        None \<Rightarrow> []
      | Some f \<Rightarrow> [SetComputeUnitLimit (unitLimit f), SetComputeUnitPrice (unitPrice f)])"

text \<open>
  \<^verbatim>\<open>sendTx(connection, tx, payer, signers, priorityFees, commitment, finality, jito,
  tipLampports, jitoEndpoint)\<close>. Building and signing the versioned transaction happen
  before the \<^verbatim>\<open>try\<close>, so a failure to fetch the blockhash is thrown to the caller;
  everything thrown inside the \<^verbatim>\<open>try\<close> is caught and handled by the \<^verbatim>\<open>catch\<close> block.
\<close>

definition sendTx ::
  "env \<Rightarrow> Transaction \<Rightarrow> pubkey \<Rightarrow> Keypair list \<Rightarrow> PriorityFee option \<Rightarrow> bool \<Rightarrow> int
     \<Rightarrow> string option \<Rightarrow> TransactionResult io" where
  "sendTx en tx payer signers pf jito tipL jitoEndpoint =
     io_bind
       (if jito
        then io_bind (getRandomTipAccount en)
               (\<lambda>tip. io_return [SystemTransfer payer (Address tip) tipL])
        else io_return [])
       (\<lambda>tipIxs.
          io_bind (buildVersionedTx en payer (priority_instructions pf @ tipIxs @ tx))
            (\<lambda>built.
               io_catch
                 (if jito
                  then io_bind (endpoint_or_random en jitoEndpoint)
                         (\<lambda>ep. io_bind (sendBundle en [sign built signers] ep)
                            (\<lambda>response.
                               if truthy (resp_error response)
                               then io_throw (Error (''Jito bundle error: ''
                                                       @ JSON_stringify en (resp_error response)))
                               else io_return \<lparr>signature = resp_result response, error = None,
                                               results = None, success = True\<rparr>))
                  else io_bind (io_call (EvSendTransaction (sign built signers))
                                  (\<lambda>tr. rpc_sendTransaction en tr (sign built signers)))
                         (\<lambda>sig. io_bind (getTxDetails en sig)
                            (\<lambda>txResult.
                               case txResult of
                                 None \<Rightarrow> io_return \<lparr>signature = None,
                                                     error = Some (ErrString ''Transaction failed''),
                                                     results = None, success = False\<rparr>
                               | Some r \<Rightarrow> io_return \<lparr>signature = Some sig, error = None,
                                                       results = Some r, success = True\<rparr>)))
                 (\<lambda>e. sendTx_catch en e)))"

section \<open>The SDK class (\<^verbatim>\<open>src/pumpfun.ts\<close>)\<close>

definition MAX_BUNDLED_BUYS_PER_TX :: nat where
  "MAX_BUNDLED_BUYS_PER_TX = 4"

text \<open>Decimal digits of a number, for the message of the HTTP error.\<close>

fun string_of_nat :: "nat \<Rightarrow> string" where
  "string_of_nat n =
     (if n < 10 then [char_of (48 + n)]
      else string_of_nat (n div 10) @ [char_of (48 + n mod 10)])"

declare string_of_nat.simps [simp del]

text \<open>
  \<^verbatim>\<open>createTokenMetadata(create)\<close> (lines 577 to 626): validates the file, posts the
  form and parses the answer. The outer \<^verbatim>\<open>catch\<close> logs and rethrows.
\<close>

definition sdk_createTokenMetadata :: "env \<Rightarrow> CreateTokenMetadata \<Rightarrow> upload_response io" where
  "sdk_createTokenMetadata en create =
     (case file_field create of
        NotBlob \<Rightarrow> io_throw (Error ''File must be a Blob or File object'')
      | Blob content \<Rightarrow>
          io_bind (io_call (EvUploadMetadata create) (\<lambda>tr. fetch_ipfs en tr create))
            (\<lambda>request.
               if status request = 500
               then io_throw (Error (''Server error (500): ''
                       @ (if body request \<noteq> [] then body request
                          else ''No error details available'')))
               else if \<not> (200 \<le> status request \<and> status request \<le> 299)
               then io_throw (Error (''HTTP error! status: '' @ string_of_nat (status request)))
               else if body request = []
               then io_throw (Error ''Empty response received from server'')
               else (case JSON_parse en (body request) of
                       None \<Rightarrow> io_throw (Error (''Invalid JSON response: '' @ body request))
                     | Some parsed \<Rightarrow> io_return parsed)))"

text \<open>
  \<^verbatim>\<open>getGlobalAccount\<close> (lines 556 to 568): \<^verbatim>\<open>tokenAccount!.data\<close> on \<^verbatim>\<open>null\<close> is a
  \<^verbatim>\<open>TypeError\<close>.
\<close>

definition getGlobalAccount :: "env \<Rightarrow> GlobalAccount io" where
  "getGlobalAccount en =
     io_bind (io_call (EvGetAccountInfo GlobalAccountPDA)
                (\<lambda>tr. rpc_getAccountInfo en tr GlobalAccountPDA))
       (\<lambda>tokenAccount.
          case tokenAccount of
            None \<Rightarrow> io_throw (TypeError ''Cannot read properties of null (reading data)'')
          | Some accountData \<Rightarrow> io_lift (GlobalAccount_fromBuffer en accountData))"

definition getBondingCurveAccount :: "env \<Rightarrow> pubkey \<Rightarrow> BondingCurveAccount option io" where
  "getBondingCurveAccount en mintKey =
     io_bind (io_call (EvGetAccountInfo (BondingCurvePDA mintKey))
                (\<lambda>tr. rpc_getAccountInfo en tr (BondingCurvePDA mintKey)))
       (\<lambda>tokenAccount.
          case tokenAccount of
            None \<Rightarrow> io_return None
          | Some accountData \<Rightarrow>
              io_bind (io_lift (BondingCurveAccount_fromBuffer en accountData))
                (\<lambda>curve. io_return (Some curve)))"

text \<open>\<^verbatim>\<open>getCreateInstructions\<close> (lines 356 to 390) calls nothing outside the process.\<close>

definition getCreateInstructions ::
  "pubkey \<Rightarrow> string \<Rightarrow> string \<Rightarrow> string \<Rightarrow> Keypair \<Rightarrow> Transaction" where
  "getCreateInstructions creatorKey tokenName tokenSymbol uri mintKp =
     [PumpCreate tokenName tokenSymbol uri (publicKey mintKp)
        (AssociatedTokenAddress (publicKey mintKp) (BondingCurvePDA (publicKey mintKp)))
        (MetadataPDA (publicKey mintKp))
        creatorKey]"

text \<open>
  \<^verbatim>\<open>getBuyInstructions(buyer, mint, feeRecipient, amount, solAmount)\<close> (lines 425 to
  470). The buyer's holding-account address is derived with
  \<^verbatim>\<open>allowOwnerOffCurve = false\<close> (line 439), before the \<^verbatim>\<open>try\<close>; the curve's one with
  \<^verbatim>\<open>true\<close>, which cannot throw. Then
  \<^verbatim>\<open>try { await getAccount(...) } catch (e) { transaction.add(create...) }\<close>, where the
  \<^verbatim>\<open>catch\<close> does not look at what was thrown; then the buy instruction, whose two
  amounts are encoded as \<^verbatim>\<open>u64\<close>.
\<close>

definition getBuyInstructions ::
  "env \<Rightarrow> pubkey \<Rightarrow> pubkey \<Rightarrow> pubkey \<Rightarrow> int \<Rightarrow> int \<Rightarrow> Transaction io" where
  "getBuyInstructions en buyer mintKey feeRcp amount solAmount =
     (let associatedBondingCurve = AssociatedTokenAddress mintKey (BondingCurvePDA mintKey)
      in io_bind (io_lift (getAssociatedTokenAddress mintKey buyer False))
           (\<lambda>associatedUser.
              io_bind
                (io_catch
                   (io_bind (io_call (EvGetAccount associatedUser)
                               (\<lambda>tr. spl_getAccount en tr associatedUser))
                      (\<lambda>account. io_return []))
                   (\<lambda>e. io_return
                           [CreateAssociatedTokenAccount buyer associatedUser buyer mintKey]))
                (\<lambda>transaction.
                   io_bind (io_lift (encode_u64 amount))
                     (\<lambda>encodedAmount.
                        io_bind (io_lift (encode_u64 solAmount))
                          (\<lambda>encodedSolAmount.
                             io_return (transaction
                                @ [PumpBuy encodedAmount encodedSolAmount feeRcp mintKey
                                     associatedBondingCurve associatedUser buyer]))))))"

text \<open>\<^verbatim>\<open>getBuyInstructionsBySolAmount\<close> (lines 392 to 422), with the default slippage
  of \<open>500\<close> basis points applied by the caller.\<close>

definition getBuyInstructionsBySolAmount ::
  "env \<Rightarrow> pubkey \<Rightarrow> pubkey \<Rightarrow> int \<Rightarrow> int \<Rightarrow> Transaction io" where
  "getBuyInstructionsBySolAmount en buyer mintKey buyAmountSol' slippage =
     io_bind (getBondingCurveAccount en mintKey)
       (\<lambda>bondingCurveAccount.
          case bondingCurveAccount of
            None \<Rightarrow> io_throw (Error ''Bonding curve account not found'')
          | Some curve \<Rightarrow>
              io_bind (io_lift (getBuyPrice en curve buyAmountSol'))
                (\<lambda>buyAmount.
                   io_bind (io_lift (calculateWithSlippageBuy buyAmountSol' slippage))
                     (\<lambda>buyAmountWithSlippage.
                        io_bind (getGlobalAccount en)
                          (\<lambda>globalAccount.
                             getBuyInstructions en buyer mintKey (feeRecipient globalAccount)
                               buyAmount buyAmountWithSlippage))))"

subsection \<open>\<^verbatim>\<open>createAndBuy\<close>: planning (lines 121 to 218)\<close>

definition slippage_of :: "CreateAndBuyParams \<Rightarrow> int" where
  "slippage_of p = (case slippageBasisPoints p of None \<Rightarrow> 500 | Some bp \<Rightarrow> bp)"

text \<open>
  The tip instruction added when relay routing is enabled; \<open>payer\<close> is the account
  the source reads for \<^verbatim>\<open>fromPubkey\<close>, or the error that reading it throws.
\<close>

definition jito_tip :: "env \<Rightarrow> JitoConfig option \<Rightarrow> exn + pubkey \<Rightarrow> instruction list io" where
  "jito_tip en cfg payer =
     (if jito_on cfg
      then io_bind (getRandomTipAccount en)
             (\<lambda>tipAccount.
                io_bind (io_lift payer)
                  (\<lambda>fromPubkey.
                     io_return [SystemTransfer fromPubkey (Address tipAccount)
                                  (tip_or_default cfg)]))
      else io_return [])"

text \<open>The first transaction (lines 128 to 169): optional tip, create, optional buy.\<close>

definition build_firstTx :: "env \<Rightarrow> CreateAndBuyParams \<Rightarrow> upload_response \<Rightarrow> Transaction io" where
  "build_firstTx en p tokenMetadata =
     io_bind (jito_tip en (jitoConfig p) (Inr (publicKey (creator p))))
       (\<lambda>tipIxs.
          io_bind
            (if buyAmountSol p > 0
             then io_bind (getGlobalAccount en)
                    (\<lambda>globalAccount.
                       io_bind (io_lift (getInitialBuyPrice en globalAccount (buyAmountSol p)))
                         (\<lambda>buyAmount.
                            io_bind (io_lift (calculateWithSlippageBuy (buyAmountSol p)
                                                (slippage_of p)))
                              (\<lambda>buyAmountWithSlippage.
                                 getBuyInstructions en (publicKey (creator p))
                                   (publicKey (mint p)) (feeRecipient globalAccount)
                                   buyAmount buyAmountWithSlippage)))
             else io_return [])
            (\<lambda>buyTx.
               io_return (tipIxs
                  @ getCreateInstructions (publicKey (creator p))
                      (name (createTokenMetadata p)) (symbol (createTokenMetadata p))
                      (metadataUri tokenMetadata) (mint p)
                  @ buyTx)))"

text \<open>
  \<^verbatim>\<open>xs.slice(i, j)\<close> for \<open>i \<le> j\<close>, and the loop of lines 177 to 179:
  \<^verbatim>\<open>for (let i = 0; i < bundledBuys.length; i += MAX_BUNDLED_BUYS_PER_TX)
    batches.push(bundledBuys.slice(i, i + MAX_BUNDLED_BUYS_PER_TX));\<close>
\<close>

definition slice :: "'a list \<Rightarrow> nat \<Rightarrow> nat \<Rightarrow> 'a list" where
  "slice xs i j = take (j - i) (drop i xs)"

function batches_from :: "'a list \<Rightarrow> nat \<Rightarrow> 'a list list" where
  "batches_from xs i =
     (if i < length xs
      then slice xs i (i + MAX_BUNDLED_BUYS_PER_TX) # batches_from xs (i + MAX_BUNDLED_BUYS_PER_TX)
      else [])"
  by pat_completeness auto
termination
  by (relation "measure (\<lambda>(xs, i). length xs - i)") (auto simp: MAX_BUNDLED_BUYS_PER_TX_def)

declare batches_from.simps [simp del]

text \<open>The buys of one batch (lines 197 to 213).\<close>

fun build_batch_buys ::
  "env \<Rightarrow> pubkey \<Rightarrow> GlobalAccount \<Rightarrow> int \<Rightarrow> BundledBuy list \<Rightarrow> Transaction io" where
  "build_batch_buys en mintKey globalAccount slippage [] = io_return []"
| "build_batch_buys en mintKey globalAccount slippage (buy # rest) =
     io_bind (io_lift (getInitialBuyPrice en globalAccount (amountInSol buy)))
       (\<lambda>buyAmount.
          io_bind (io_lift (calculateWithSlippageBuy (amountInSol buy) slippage))
            (\<lambda>buyAmountWithSlippage.
               io_bind (getBuyInstructions en (publicKey (signer buy)) mintKey
                          (feeRecipient globalAccount) buyAmount buyAmountWithSlippage)
                 (\<lambda>buyTx.
                    io_bind (build_batch_buys en mintKey globalAccount slippage rest)
                      (\<lambda>more. io_return (buyTx @ more)))))"

text \<open>\<^verbatim>\<open>batch[0].signer.publicKey\<close>: a \<^verbatim>\<open>TypeError\<close> on an empty batch.\<close>

definition first_signer :: "BundledBuy list \<Rightarrow> exn + pubkey" where
  "first_signer batch =
     (case batch of
        [] \<Rightarrow> Inl (TypeError ''Cannot read properties of undefined (reading signer)'')
      | b # bs \<Rightarrow> Inr (publicKey (signer b)))"

text \<open>One batch transaction and its signers (lines 182 to 216).\<close>

definition build_batchTx ::
  "env \<Rightarrow> CreateAndBuyParams \<Rightarrow> BundledBuy list \<Rightarrow> (Transaction \<times> Keypair list) io" where
  "build_batchTx en p batch =
     io_bind (getGlobalAccount en)
       (\<lambda>globalAccount.
          io_bind (jito_tip en (jitoConfig p) (first_signer batch))
            (\<lambda>tipIxs.
               io_bind (build_batch_buys en (publicKey (mint p)) globalAccount
                          (slippage_of p) batch)
                 (\<lambda>buys. io_return (tipIxs @ buys, map signer batch))))"

fun build_batches ::
  "env \<Rightarrow> CreateAndBuyParams \<Rightarrow> BundledBuy list list \<Rightarrow> (Transaction \<times> Keypair list) list io" where
  "build_batches en p [] = io_return []"
| "build_batches en p (batch # rest) =
     io_bind (build_batchTx en p batch)
       (\<lambda>entry. io_bind (build_batches en p rest) (\<lambda>entries. io_return (entry # entries)))"

text \<open>
  The plan: \<^verbatim>\<open>allTransactions\<close> and \<^verbatim>\<open>allSigners\<close>, zipped. The batches are built only
  \<^verbatim>\<open>if (bundledBuys && bundledBuys.length > 0)\<close>.
\<close>

definition createAndBuy_plan ::
  "env \<Rightarrow> CreateAndBuyParams \<Rightarrow> (Transaction \<times> Keypair list) list io" where
  "createAndBuy_plan en p =
     io_bind (sdk_createTokenMetadata en (createTokenMetadata p))
       (\<lambda>tokenMetadata.
          io_bind (build_firstTx en p tokenMetadata)
            (\<lambda>firstTx.
               io_bind
                 (case bundledBuys p of
                    None \<Rightarrow> io_return []
                  | Some buys \<Rightarrow>
                      if length buys > 0 then build_batches en p (batches_from buys 0)
                      else io_return [])
                 (\<lambda>entries. io_return ((firstTx, [creator p, mint p]) # entries))))"

subsection \<open>\<^verbatim>\<open>createAndBuy\<close>: submission (lines 220 to 286)\<close>

text \<open>\<^verbatim>\<open>const payer = signers[0]; ... payer.publicKey\<close>.\<close>

definition first_payer :: "Keypair list \<Rightarrow> exn + pubkey" where
  "first_payer signers =
     (case signers of
        [] \<Rightarrow> Inl (TypeError ''Cannot read properties of undefined (reading publicKey)'')
      | k # ks \<Rightarrow> Inr (publicKey k))"

text \<open>The relay path: build, sign and serialize every transaction (lines 224 to 240).\<close>

fun serialize_all ::
  "env \<Rightarrow> (Transaction \<times> Keypair list) list \<Rightarrow> VersionedTransaction list io" where
  "serialize_all en [] = io_return []"
| "serialize_all en ((tx, signers) # rest) =
     io_bind (io_lift (first_payer signers))
       (\<lambda>payer.
          io_bind (buildVersionedTx en payer tx)
            (\<lambda>versionedTx.
               io_bind (serialize_all en rest)
                 (\<lambda>more. io_return (sign versionedTx signers # more))))"

text \<open>Lines 242 to 257: one bundle, one answer, no second attempt.\<close>

definition submit_bundle ::
  "env \<Rightarrow> JitoConfig option \<Rightarrow> (Transaction \<times> Keypair list) list \<Rightarrow> TransactionResult io" where
  "submit_bundle en cfg plan =
     io_bind (serialize_all en plan)
       (\<lambda>serializedTxs.
          io_bind (endpoint_or_random en (config_endpoint cfg))
            (\<lambda>ep.
               io_bind (sendBundle en serializedTxs ep)
                 (\<lambda>response.
                    if truthy (resp_error response)
                    then io_return \<lparr>signature = None,
                                    error = Some (ErrError (''Jito bundle error: ''
                                               @ JSON_stringify en (resp_error response))),
                                    results = None, success = False\<rparr>
                    else io_return \<lparr>signature = resp_result response, error = None,
                                    results = None, success = True\<rparr>)))"

text \<open>
  The sequential path (lines 261 to 285). \<open>i\<close> is the loop index, \<open>result0\<close> the
  variable of that name (\<open>None\<close> while \<^verbatim>\<open>undefined\<close>); \<^verbatim>\<open>sendTx\<close> is called with its
  defaults \<^verbatim>\<open>jito = false\<close>, \<^verbatim>\<open>tipLampports = TIP_LAMPORTS\<close> and no endpoint.
\<close>

fun send_sequential ::
  "env \<Rightarrow> PriorityFee option \<Rightarrow> nat \<Rightarrow> TransactionResult option
     \<Rightarrow> (Transaction \<times> Keypair list) list \<Rightarrow> TransactionResult option io" where
  "send_sequential en pf i result0 [] = io_return result0"
| "send_sequential en pf i result0 ((tx, signers) # rest) =
     io_bind (io_lift (first_payer signers))
       (\<lambda>payer.
          io_bind (sendTx en tx payer signers pf False TIP_LAMPORTS None)
            (\<lambda>result.
               if \<not> success result then io_return (Some result)
               else send_sequential en pf (Suc i) (if i = 0 then Some result else result0) rest))"

text \<open>\<^verbatim>\<open>createAndBuy\<close>. The result \<open>None\<close> is \<^verbatim>\<open>undefined\<close>, which \<^verbatim>\<open>result0!\<close> would
  let through for an empty plan.\<close>

definition createAndBuy :: "env \<Rightarrow> CreateAndBuyParams \<Rightarrow> TransactionResult option io" where
  "createAndBuy en p =
     io_bind (createAndBuy_plan en p)
       (\<lambda>plan.
          if jito_on (jitoConfig p)
          then io_bind (submit_bundle en (jitoConfig p) plan) (\<lambda>r. io_return (Some r))
          else send_sequential en (priorityFees p) 0 None plan)"

section \<open>Vocabulary of the properties\<close>

text \<open>
  A submission is an event that hands transactions to the ledger or to the relay.
  \<open>adds_only P m\<close> says that \<open>m\<close> only extends the trace, and only by events that
  satisfy \<open>P\<close>.
\<close>

fun is_submission :: "event \<Rightarrow> bool" where
  "is_submission (EvSendBundle txs ep) = True"
| "is_submission (EvSendTransaction vtx) = True"
| "is_submission ev = False"

definition planning_event :: "event \<Rightarrow> bool" where
  "planning_event ev = (\<not> is_submission ev)"

definition adds_only :: "(event \<Rightarrow> bool) \<Rightarrow> 'a io \<Rightarrow> bool" where
  "adds_only P m = (\<forall>tr. \<exists>evs. snd (m tr) = tr @ evs \<and> list_all P evs)"

text \<open>
  \<^verbatim>\<open>sendTx\<close> reports a failure in one of two ways: it returns a result with
  \<^verbatim>\<open>success: false\<close>, or it throws.
\<close>

definition sendTx_failed :: "exn + TransactionResult \<Rightarrow> bool" where
  "sendTx_failed outcome = (case outcome of Inl e \<Rightarrow> True | Inr r \<Rightarrow> \<not> success r)"

text \<open>
  Modelled from the spec: the accounts that have to sign an instruction. The signer
  flags are part of the program interface (\<^verbatim>\<open>src/IDL\<close>, the System and
  Associated-Token programs), which is not among the sources; following the data
  model's "the accounts whose instructions appear in transaction i", an instruction
  belongs to the account on whose behalf the source builds it: the \<^verbatim>\<open>fromPubkey\<close> of
  a transfer, the \<^verbatim>\<open>mint\<close> (named in \<^verbatim>\<open>.signers([mint])\<close>) and the \<^verbatim>\<open>user\<close> of create,
  the payer of a holding-account creation, the \<^verbatim>\<open>user\<close> of a buy.
\<close>

fun instruction_signers :: "instruction \<Rightarrow> pubkey list" where
  "instruction_signers (SetComputeUnitLimit n) = []"
| "instruction_signers (SetComputeUnitPrice n) = []"
| "instruction_signers (SystemTransfer fromPubkey toPubkey lamports) = [fromPubkey]"
| "instruction_signers (PumpCreate tokenName tokenSymbol uri mintKey abc md user) = [mintKey, user]"
| "instruction_signers (CreateAssociatedTokenAccount payer ata owner mintKey) = [payer]"
| "instruction_signers (PumpBuy amount solAmount fr mintKey abc au user) = [user]"

definition required_signers :: "Transaction \<Rightarrow> pubkey set" where
  "required_signers tx = set (concat (map instruction_signers tx))"

text \<open>The participants of the buy instructions of a transaction, in order.\<close>

fun buy_users :: "Transaction \<Rightarrow> pubkey list" where
  "buy_users [] = []"
| "buy_users (PumpBuy amount solAmount fr mintKey abc au user # rest) = user # buy_users rest"
| "buy_users (ix # rest) = buy_users rest"

text \<open>
  The batches of a request, and what it means for a plan entry (transaction and
  signers) to be the entry of a batch: it is signed by the batch's signers, in order,
  it holds one buy for each of them, and its required signers are its signers.
\<close>

definition bundled_batches :: "CreateAndBuyParams \<Rightarrow> BundledBuy list list" where
  "bundled_batches p = (case bundledBuys p of None \<Rightarrow> [] | Some buys \<Rightarrow> batches_from buys 0)"

definition batch_entry :: "BundledBuy list \<Rightarrow> Transaction \<times> Keypair list \<Rightarrow> bool" where
  "batch_entry batch entry =
     (snd entry = map signer batch
      \<and> buy_users (fst entry) = map (\<lambda>b. publicKey (signer b)) batch
      \<and> required_signers (fst entry) = set (map publicKey (snd entry)))"

text \<open>The primary transaction without a buy: the optional tip and the create instruction.\<close>

definition tip_and_create :: "env \<Rightarrow> CreateAndBuyParams \<Rightarrow> upload_response \<Rightarrow> trace \<Rightarrow> Transaction" where
  "tip_and_create en p meta tr =
     (if jito_on (jitoConfig p)
      then [SystemTransfer (publicKey (creator p))
              (Address (TIP_ACCOUNTS ! (math_random en tr (length TIP_ACCOUNTS)
                                          mod length TIP_ACCOUNTS)))
              (tip_or_default (jitoConfig p))]
      else [])
     @ getCreateInstructions (publicKey (creator p))
         (name (createTokenMetadata p)) (symbol (createTokenMetadata p))
         (metadataUri meta) (mint p)"

section \<open>A sample environment and sample requests\<close>

text \<open>
  An outside world for the concrete instances below: the gateway and the node answer
  every call, every holding account exists, the node accepts a transaction paid by
  the creator and rejects any other at the preflight simulation (with the logs of the
  simulation), and the relay rejects every bundle.
\<close>

definition sample_global :: GlobalAccount where
  "sample_global =
     \<lparr>feeRecipient = Address ''feeRecipient'',
      initialVirtualTokenReserves = 1073000000000000,
      initialVirtualSolReserves = 30000000000,
      initialRealTokenReserves = 793100000000000,
      feeBasisPoints = 100\<rparr>"

definition sample_curve :: BondingCurveAccount where
  "sample_curve =
     \<lparr>virtualTokenReserves = 1073000000000000,
      virtualSolReserves = 30000000000,
      realTokenReserves = 793100000000000,
      realSolReserves = 0,
      tokenTotalSupply = 1000000000000000,
      complete = False\<rparr>"

definition relay_rejection :: json where
  "relay_rejection = JObject [(''code'', JNumber (- 32602)), (''message'', JString ''bundle rejected'')]"

definition sample_env :: env where
  "sample_env =
     \<lparr>fetch_ipfs = (\<lambda>tr create. Inr \<lparr>status = 200, body = ''{metadataUri}''\<rparr>),
      JSON_parse = (\<lambda>s. Some \<lparr>metadataUri = ''ipfs://metadata''\<rparr>),
      rpc_getAccountInfo = (\<lambda>tr a. Inr (Some [])),
      GlobalAccount_fromBuffer = (\<lambda>b. Inr sample_global),
      getInitialBuyPrice =
        (\<lambda>g solIn. Inr ((initialVirtualTokenReserves g * solIn)
                            div (initialVirtualSolReserves g + solIn))),
      BondingCurveAccount_fromBuffer = (\<lambda>b. Inr sample_curve),
      getBuyPrice =
        (\<lambda>c solIn. Inr ((virtualTokenReserves c * solIn) div (virtualSolReserves c + solIn))),
      spl_getAccount = (\<lambda>tr a. Inr ()),
      math_random = (\<lambda>tr n. 0),
      rpc_getLatestBlockhash = (\<lambda>tr. Inr ''blockhash''),
      rpc_sendTransaction =
        (\<lambda>tr vtx. if payerKey vtx = Address ''creator'' then Inr ''sig1''
                   else Inl (SendTransactionError ''insufficient funds''
                               (Some [''Program log: Instruction: Buy'',
                                      ''Transfer failed: insufficient lamports'']))),
      rpc_confirmTransaction = (\<lambda>tr sig. Inr None),
      rpc_getLogs = (\<lambda>tr. Inl (Error ''Log messages not found'')),
      rpc_getTransaction = (\<lambda>tr sig. Inr (Some (TxResponse sig None))),
      jito_sendBundle =
        (\<lambda>tr txs ep. Inr \<lparr>resp_result = None, resp_error = Some relay_rejection\<rparr>),
      AnchorError_parse = (\<lambda>logs. Inr None),
      JSON_stringify = (\<lambda>j. ''{code:-32602,message:bundle rejected}'')\<rparr>"

definition bundled :: "string \<Rightarrow> int \<Rightarrow> BundledBuy" where
  "bundled who amount = \<lparr>amountInSol = amount, signer = \<lparr>publicKey = Address who\<rparr>\<rparr>"

definition sample_metadata :: CreateTokenMetadata where
  "sample_metadata =
     \<lparr>name = ''TST-7'', symbol = ''TST-7'', description = ''This is a test token'',
      file_field = Blob ''png'', twitter = None, telegram = None, website = None\<rparr>"

definition sample_params :: "int \<Rightarrow> JitoConfig option \<Rightarrow> BundledBuy list option \<Rightarrow> CreateAndBuyParams" where
  "sample_params amount cfg buys =
     \<lparr>creator = \<lparr>publicKey = Address ''creator''\<rparr>,
      mint = \<lparr>publicKey = Address ''mint''\<rparr>,
      createTokenMetadata = sample_metadata,
      buyAmountSol = amount,
      slippageBasisPoints = Some 500,
      priorityFees = Some \<lparr>unitLimit = 300000, unitPrice = 200000\<rparr>,
      jitoConfig = cfg,
      bundledBuys = buys\<rparr>"

definition nine_buyers :: "BundledBuy list" where
  "nine_buyers =
     [bundled ''b1'' 10000000, bundled ''b2'' 10000000, bundled ''b3'' 10000000,
      bundled ''b4'' 10000000, bundled ''b5'' 10000000, bundled ''b6'' 10000000,
      bundled ''b7'' 10000000, bundled ''b8'' 10000000, bundled ''b9'' 10000000]"

definition failing_lookup_env :: env where
  "failing_lookup_env = sample_env\<lparr>spl_getAccount := (\<lambda>tr a. Inl (Error ''failed to fetch''))\<rparr>"

text \<open>
  Two variants. In the first the node rejects the transactions not paid by the creator
  without logs. In the second the node accepts every transaction, and the one paid by
  the first bundled buyer fails on chain: its confirmation and its details carry the
  error.
\<close>

definition no_logs_env :: env where
  "no_logs_env =
     sample_env\<lparr>rpc_sendTransaction :=
        (\<lambda>tr vtx. if payerKey vtx = Address ''creator'' then Inr ''sig1''
                   else Inl (SendTransactionError ''insufficient funds'' None))\<rparr>"

definition onchain_failure_env :: env where
  "onchain_failure_env =
     sample_env\<lparr>rpc_sendTransaction :=
        (\<lambda>tr vtx. Inr (if payerKey vtx = Address ''creator'' then ''sig1''
                        else if payerKey vtx = Address ''b1'' then ''sig2'' else ''sig3'')),
      rpc_confirmTransaction :=
        (\<lambda>tr sig. Inr (if sig = ''sig2'' then Some ''InstructionError'' else None)),
      rpc_getTransaction :=
        (\<lambda>tr sig. Inr (Some (TxResponse sig
                                (if sig = ''sig2'' then Some ''InstructionError'' else None))))\<rparr>"

definition relay_on :: "JitoConfig option" where
  "relay_on = Some \<lparr>jitoEnabled = True, endpoint = None, tipLampports = None\<rparr>"

definition five_buyers :: "BundledBuy list" where
  "five_buyers =
     [bundled ''b1'' 10000000, bundled ''b2'' 10000000, bundled ''b3'' 10000000,
      bundled ''b4'' 10000000, bundled ''b5'' 10000000]"

section \<open>Properties of the slippage arithmetic\<close>

lemma bigint_quot_nonneg: "0 \<le> a \<Longrightarrow> 0 < b \<Longrightarrow> bigint_quot a b = a div b"
  by (cases "a = 0") (simp_all add: bigint_quot_def)

lemma bigint_div_10000: "bigint_div a 10000 = Inr (bigint_quot a 10000)"
  by (simp add: bigint_div_def)

lemma calculateWithSlippageBuy_eq:
  "calculateWithSlippageBuy amount bp = Inr (amount + bigint_quot (amount * bp) 10000)"
  by (simp add: calculateWithSlippageBuy_def bigint_div_10000)

lemma calculateWithSlippageSell_eq:
  "calculateWithSlippageSell amount bp = Inr (amount - bigint_quot (amount * bp) 10000)"
  by (simp add: calculateWithSlippageSell_def bigint_div_10000)

lemma slippage_delta_nonneg:
  "0 \<le> amount \<Longrightarrow> 0 \<le> bp \<Longrightarrow> bigint_quot (amount * bp) 10000 = (amount * bp) div 10000"
  by (rule bigint_quot_nonneg) simp_all

text \<open>
  Claim C4. For every amount \<open>\<ge> 0\<close> and every basis-point value \<open>\<ge> 0\<close>,
  \<^verbatim>\<open>calculateWithSlippageBuy\<close> returns (it does not throw) exactly
  \<open>amount + \<lfloor>amount * basisPoints / 10000\<rfloor>\<close>, in exact integer arithmetic.
\<close>

theorem C4_buy_slippage_exact:
  assumes "0 \<le> amount" and "0 \<le> basisPoints"
  shows "calculateWithSlippageBuy amount basisPoints
           = Inr (amount + (amount * basisPoints) div 10000)"
  using assms by (simp add: calculateWithSlippageBuy_eq slippage_delta_nonneg)

theorem C4_buy_slippage_exact_witness:
  "(0::int) \<le> 123456789 \<and> (0::int) \<le> 500
     \<and> calculateWithSlippageBuy 123456789 500 = Inr 129629628"
  using C4_buy_slippage_exact [of 123456789 500] by simp

text \<open>
  Claim C9. Zero slippage tolerance is the identity on both operations, for every
  amount (negative ones included): both return their first argument unchanged.
\<close>

theorem C9_zero_slippage_identity:
  "calculateWithSlippageBuy x 0 = Inr x \<and> calculateWithSlippageSell x 0 = Inr x"
  by (simp add: calculateWithSlippageBuy_eq calculateWithSlippageSell_eq bigint_quot_def)

text \<open>
  Claim C3, as the code has it. The claim says that a positive tolerance makes the
  bound strictly worse than the amount, the buy bound rounded up and the sell bound
  rounded down. The code adds or subtracts the truncated quotient
  \<open>amount * basisPoints / 10000\<close>, so for small amounts the bound equals the amount.
  At amount \<open>1\<close> and \<open>500\<close> basis points both functions return \<open>1\<close>: the exact buy
  bound \<open>1.05\<close> is rounded down, the exact sell bound \<open>0.95\<close> is rounded up.
\<close>

theorem C3_strictly_worse_counterexample:
  "(0::int) < 500 \<and> calculateWithSlippageBuy 1 500 = Inr 1
     \<and> calculateWithSlippageSell 1 500 = Inr 1"
  by (simp add: calculateWithSlippageBuy_eq calculateWithSlippageSell_eq bigint_quot_def)

text \<open>
  Claim C3, amended. For every amount \<open>\<ge> 0\<close> and tolerance \<open>\<ge> 0\<close> both functions
  return; the buy bound \<open>b\<close> is at least the amount and the sell bound \<open>s\<close> at most
  the amount, each strictly so exactly when \<open>amount * basisPoints \<ge> 10000\<close>; \<open>b\<close> is
  the exact value \<open>amount * (10000 + basisPoints) / 10000\<close> rounded down, and \<open>s\<close> is
  the exact value \<open>amount * (10000 - basisPoints) / 10000\<close> rounded up.
\<close>

theorem C3_slippage_bounds:
  assumes "0 \<le> amount" and "0 \<le> bp"
  shows "\<exists>b s. calculateWithSlippageBuy amount bp = Inr b
            \<and> calculateWithSlippageSell amount bp = Inr s
            \<and> amount \<le> b \<and> s \<le> amount
            \<and> (amount < b \<longleftrightarrow> 10000 \<le> amount * bp)
            \<and> (s < amount \<longleftrightarrow> 10000 \<le> amount * bp)
            \<and> 10000 * b \<le> amount * (10000 + bp)
            \<and> amount * (10000 + bp) < 10000 * (b + 1)
            \<and> amount * (10000 - bp) \<le> 10000 * s
            \<and> 10000 * (s - 1) < amount * (10000 - bp)"
proof -
  define p where "p = amount * bp"
  define q where "q = p div 10000"
  have p0: "0 \<le> p" using assms by (simp add: p_def)
  have q0: "0 \<le> q" using p0 by (simp add: q_def)
  have lo: "10000 * q \<le> p" unfolding q_def by (simp add: mult.commute)
  have hi: "p < 10000 * q + 10000" unfolding q_def
    using pos_mod_bound [of 10000 p] div_mult_mod_eq [of p 10000] by linarith
  have qpos: "0 < q \<longleftrightarrow> 10000 \<le> p" using lo hi q0 by linarith
  have b: "calculateWithSlippageBuy amount bp = Inr (amount + q)"
    using assms by (simp add: calculateWithSlippageBuy_eq slippage_delta_nonneg q_def p_def)
  have s: "calculateWithSlippageSell amount bp = Inr (amount - q)"
    using assms by (simp add: calculateWithSlippageSell_eq slippage_delta_nonneg q_def p_def)
  have e1: "amount * (10000 + bp) = 10000 * amount + p" by (simp add: p_def algebra_simps)
  have e2: "amount * (10000 - bp) = 10000 * amount - p" by (simp add: p_def algebra_simps)
  show ?thesis
    unfolding b s e1 e2 using q0 lo hi qpos by (auto simp: p_def [symmetric])
qed

theorem C3_slippage_bounds_witness:
  "(0::int) \<le> 12345 \<and> (0::int) \<le> 500
     \<and> (\<exists>b s. calculateWithSlippageBuy 12345 500 = Inr b
            \<and> calculateWithSlippageSell 12345 500 = Inr s
            \<and> 12345 < b \<and> s < 12345
            \<and> 10000 * b \<le> 12345 * (10000 + 500)
            \<and> 12345 * (10000 + 500) < 10000 * (b + 1)
            \<and> 12345 * (10000 - 500) \<le> 10000 * s
            \<and> 10000 * (s - 1) < 12345 * (10000 - 500))"
  using C3_slippage_bounds [of 12345 500] by auto

text \<open>
  Claim C5, as the code has it. The claim says that a sell bound whose deduction
  exceeds the amount fails with an underflow error. \<^verbatim>\<open>bigint\<close> is signed and the
  function has no check: at amount \<open>100\<close> and \<open>20000\<close> basis points the deduction is
  \<open>200 > 100\<close> and the function returns \<open>-100\<close>.
\<close>

theorem C5_underflow_counterexample:
  "100 < bigint_quot (100 * 20000) 10000
     \<and> calculateWithSlippageSell 100 20000 = Inr (- 100)"
  by (simp add: calculateWithSlippageSell_eq bigint_quot_def)

text \<open>
  Claim C5, amended. \<^verbatim>\<open>calculateWithSlippageSell\<close> never fails: for every amount
  and every basis-point value it returns the signed difference of the amount and the
  truncated quotient \<open>amount * basisPoints / 10000\<close>, which is negative whenever that
  quotient exceeds the amount.
\<close>

theorem C5_sell_slippage_total:
  "\<exists>r. calculateWithSlippageSell amount bp = Inr r
        \<and> r = amount - bigint_quot (amount * bp) 10000
        \<and> (amount < bigint_quot (amount * bp) 10000 \<longrightarrow> r < 0)"
  by (simp add: calculateWithSlippageSell_eq)

theorem C5_sell_slippage_total_witness:
  "\<exists>r. calculateWithSlippageSell 100 20000 = Inr r
        \<and> r = - 100 \<and> 100 < bigint_quot (100 * 20000) 10000 \<and> r < 0"
  using C5_sell_slippage_total [of 100 20000] by (simp add: bigint_quot_def)

section \<open>The trace: what planning and serialization add\<close>

lemmas io_defs = io_return_def io_throw_def io_lift_def io_bind_def io_catch_def io_call_def

lemma adds_only_return [simp, intro!]: "adds_only P (io_return x)"
  and adds_only_throw [simp, intro!]: "adds_only P (io_throw e)"
  and adds_only_lift [simp, intro!]: "adds_only P (io_lift r)"
  by (simp_all add: adds_only_def io_defs)

lemma adds_only_call [intro!]: "P ev \<Longrightarrow> adds_only P (io_call ev f)"
  by (simp add: adds_only_def io_defs)

lemma adds_only_bind [intro!]:
  assumes "adds_only P m" and "\<And>x. adds_only P (f x)"
  shows "adds_only P (io_bind m f)"
  unfolding adds_only_def
proof
  fix tr
  from assms(1) obtain evs where m: "snd (m tr) = tr @ evs" "list_all P evs"
    by (auto simp: adds_only_def)
  show "\<exists>evs. snd (io_bind m f tr) = tr @ evs \<and> list_all P evs"
  proof (cases "m tr")
    case (Pair r tr1)
    with m have tr1: "tr1 = tr @ evs" by simp
    show ?thesis
    proof (cases r)
      case (Inl e)
      with Pair tr1 m show ?thesis by (auto simp: io_bind_def)
    next
      case (Inr x)
      from assms(2) [of x] obtain evs' where "snd (f x tr1) = tr1 @ evs'" "list_all P evs'"
        by (auto simp: adds_only_def)
      with Inr Pair tr1 m show ?thesis by (auto simp: io_bind_def)
    qed
  qed
qed

lemma adds_only_catch [intro!]:
  assumes "adds_only P m" and "\<And>e. adds_only P (h e)"
  shows "adds_only P (io_catch m h)"
  unfolding adds_only_def
proof
  fix tr
  from assms(1) obtain evs where m: "snd (m tr) = tr @ evs" "list_all P evs"
    by (auto simp: adds_only_def)
  show "\<exists>evs. snd (io_catch m h tr) = tr @ evs \<and> list_all P evs"
  proof (cases "m tr")
    case (Pair r tr1)
    with m have tr1: "tr1 = tr @ evs" by simp
    show ?thesis
    proof (cases r)
      case (Inr x)
      with Pair tr1 m show ?thesis by (auto simp: io_catch_def)
    next
      case (Inl e)
      from assms(2) [of e] obtain evs' where "snd (h e tr1) = tr1 @ evs'" "list_all P evs'"
        by (auto simp: adds_only_def)
      with Inl Pair tr1 m show ?thesis by (auto simp: io_catch_def)
    qed
  qed
qed

lemma adds_only_random_element: "P EvMathRandom \<Longrightarrow> adds_only P (random_element en xs)"
  unfolding random_element_def by (intro adds_only_bind adds_only_call adds_only_return)

lemma adds_only_endpoint_or_random:
  "P EvMathRandom \<Longrightarrow> adds_only P (endpoint_or_random en ep)"
  by (auto simp: endpoint_or_random_def getRandomJitoMainnetEndpoint_def
      intro: adds_only_random_element split: option.splits)

lemma adds_only_getGlobalAccount:
  "P (EvGetAccountInfo GlobalAccountPDA) \<Longrightarrow> adds_only P (getGlobalAccount en)"
  unfolding getGlobalAccount_def
  by (intro adds_only_bind adds_only_call) (auto split: option.splits)

lemma adds_only_getBuyInstructions:
  "(\<And>a. P (EvGetAccount a)) \<Longrightarrow> adds_only P (getBuyInstructions en b m f a s)"
  unfolding getBuyInstructions_def Let_def
  by (intro adds_only_bind adds_only_catch adds_only_call adds_only_return adds_only_lift)

lemma adds_only_jito_tip: "adds_only planning_event (jito_tip en cfg payer)"
  unfolding jito_tip_def getRandomTipAccount_def
  by (auto intro!: adds_only_random_element simp: planning_event_def)

lemma adds_only_build_firstTx: "adds_only planning_event (build_firstTx en p meta)"
  unfolding build_firstTx_def
  by (auto intro!: adds_only_jito_tip adds_only_getGlobalAccount adds_only_getBuyInstructions
       simp: planning_event_def)

lemma adds_only_build_batch_buys:
  "adds_only planning_event (build_batch_buys en m g s batch)"
  by (induction batch) (auto intro!: adds_only_getBuyInstructions simp: planning_event_def)

lemma adds_only_build_batchTx: "adds_only planning_event (build_batchTx en p batch)"
  unfolding build_batchTx_def
  by (auto intro!: adds_only_jito_tip adds_only_getGlobalAccount adds_only_build_batch_buys
       simp: planning_event_def)

lemma adds_only_build_batches: "adds_only planning_event (build_batches en p bs)"
  by (induction bs) (auto intro!: adds_only_build_batchTx)

lemma adds_only_createTokenMetadata:
  "adds_only planning_event (sdk_createTokenMetadata en c)"
  unfolding sdk_createTokenMetadata_def
  by (auto intro!: adds_only_bind adds_only_call simp: planning_event_def
      split: file_value.splits option.splits)

lemma adds_only_createAndBuy_plan: "adds_only planning_event (createAndBuy_plan en p)"
  unfolding createAndBuy_plan_def
  by (auto intro!: adds_only_createTokenMetadata adds_only_build_firstTx adds_only_build_batches
      split: option.splits)

lemma adds_only_buildVersionedTx: "adds_only planning_event (buildVersionedTx en payer tx)"
  unfolding buildVersionedTx_def by (auto simp: planning_event_def)

lemma adds_only_serialize_all: "adds_only planning_event (serialize_all en plan)"
  by (induction plan) (auto intro!: adds_only_buildVersionedTx)

section \<open>The plan of \<^verbatim>\<open>createAndBuy\<close>\<close>

lemma required_signers_append [simp]:
  "required_signers (a @ b) = required_signers a \<union> required_signers b"
  by (simp add: required_signers_def)

lemma required_signers_Nil [simp]: "required_signers [] = {}"
  by (simp add: required_signers_def)

lemma buy_users_append [simp]: "buy_users (a @ b) = buy_users a @ buy_users b"
  by (induction a rule: buy_users.induct) simp_all

lemma getBuyInstructions_eq:
  "getBuyInstructions en buyer mintKey feeRcp amount solAmount tr =
     (if \<not> isOnCurve buyer then (Inl TokenOwnerOffCurveError, tr)
      else if \<bar>amount\<bar> < 2 ^ 64 \<and> \<bar>solAmount\<bar> < 2 ^ 64
      then (Inr ((if isl (spl_getAccount en tr (AssociatedTokenAddress mintKey buyer))
                  then [CreateAssociatedTokenAccount buyer
                          (AssociatedTokenAddress mintKey buyer) buyer mintKey]
                  else [])
                 @ [PumpBuy \<bar>amount\<bar> \<bar>solAmount\<bar> feeRcp mintKey
                      (AssociatedTokenAddress mintKey (BondingCurvePDA mintKey))
                      (AssociatedTokenAddress mintKey buyer) buyer]),
            tr @ [EvGetAccount (AssociatedTokenAddress mintKey buyer)])
      else (Inl (Error ''byte array longer than desired length''),
            tr @ [EvGetAccount (AssociatedTokenAddress mintKey buyer)]))"
  by (cases "spl_getAccount en tr (AssociatedTokenAddress mintKey buyer)")
     (simp_all add: getBuyInstructions_def getAssociatedTokenAddress_def encode_u64_def
        Let_def io_defs)

lemma getBuyInstructions_result:
  assumes "getBuyInstructions en buyer mintKey feeRcp amount solAmount tr = (Inr ixs, tr')"
  shows "buy_users ixs = [buyer]" and "required_signers ixs = {buyer}"
  using assms by (auto simp: getBuyInstructions_eq required_signers_def split: if_splits)

lemma io_bind_Inr:
  "io_bind m f tr = (Inr y, tr') \<longleftrightarrow> (\<exists>x tr1. m tr = (Inr x, tr1) \<and> f x tr1 = (Inr y, tr'))"
  by (auto simp: io_bind_def split: prod.splits sum.splits)

lemma io_lift_Inr: "io_lift r tr = (Inr y, tr') \<longleftrightarrow> r = Inr y \<and> tr' = tr"
  by (auto simp: io_lift_def)

lemma io_return_Inr: "io_return x tr = (Inr y, tr') \<longleftrightarrow> x = y \<and> tr' = tr"
  by (auto simp: io_return_def)

lemma io_throw_Inr: "io_throw e tr = (Inr y, tr') \<longleftrightarrow> False"
  by (simp add: io_throw_def)

lemmas io_Inr = io_bind_Inr io_lift_Inr io_return_Inr io_throw_Inr

lemma build_batch_buys_result:
  "build_batch_buys en mintKey g slip batch tr = (Inr ixs, tr')
     \<Longrightarrow> buy_users ixs = map (\<lambda>b. publicKey (signer b)) batch
         \<and> required_signers ixs = set (map (\<lambda>b. publicKey (signer b)) batch)"
proof (induction batch arbitrary: tr ixs)
  case Nil
  then show ?case by (simp add: io_Inr)
next
  case (Cons buy rest)
  from Cons.prems obtain a ws buyTx tr1 more where
    b: "getBuyInstructions en (publicKey (signer buy)) mintKey (feeRecipient g) a ws tr = (Inr buyTx, tr1)"
    and r: "build_batch_buys en mintKey g slip rest tr1 = (Inr more, tr')"
    and ixs: "ixs = buyTx @ more"
    by (auto simp: io_Inr)
  from getBuyInstructions_result [OF b] Cons.IH [OF r] ixs show ?case by simp
qed

lemma jito_tip_result:
  "jito_tip en cfg payer tr = (Inr ixs, tr')
     \<Longrightarrow> buy_users ixs = []
        \<and> (if jito_on cfg then \<exists>k tip. payer = Inr k \<and> ixs = [SystemTransfer k (Address tip) (tip_or_default cfg)]
            else ixs = [])"
  by (auto simp: jito_tip_def io_Inr split: if_splits)

lemma first_signer_Inr: "first_signer batch = Inr k \<Longrightarrow> k \<in> set (map (\<lambda>b. publicKey (signer b)) batch)"
  by (auto simp: first_signer_def split: list.splits)

lemma build_batchTx_result:
  assumes "build_batchTx en p batch tr = (Inr (tx, signers), tr')"
  shows "signers = map signer batch"
    and "buy_users tx = map (\<lambda>b. publicKey (signer b)) batch"
    and "required_signers tx = set (map publicKey signers)"
proof -
  from assms obtain g tr1 tipIxs tr2 buys where
    t: "jito_tip en (jitoConfig p) (first_signer batch) tr1 = (Inr tipIxs, tr2)"
    and b: "build_batch_buys en (publicKey (mint p)) g (slippage_of p) batch tr2 = (Inr buys, tr')"
    and tx: "tx = tipIxs @ buys" and s: "signers = map signer batch"
    by (auto simp: build_batchTx_def io_Inr)
  show "signers = map signer batch" by (rule s)
  from jito_tip_result [OF t] build_batch_buys_result [OF b] tx
  show "buy_users tx = map (\<lambda>b. publicKey (signer b)) batch" by simp
  have "required_signers tipIxs \<subseteq> set (map (\<lambda>b. publicKey (signer b)) batch)"
    using jito_tip_result [OF t] first_signer_Inr [of batch]
    by (auto simp: required_signers_def split: if_splits)
  with build_batch_buys_result [OF b] tx s
  show "required_signers tx = set (map publicKey signers)" by (auto simp: comp_def)
qed

lemma build_batches_result:
  "build_batches en p bs tr = (Inr entries, tr') \<Longrightarrow> list_all2 batch_entry bs entries"
proof (induction bs arbitrary: tr entries)
  case Nil
  then show ?case by (simp add: io_Inr)
next
  case (Cons batch rest)
  from Cons.prems obtain entry tr1 more where
    e: "build_batchTx en p batch tr = (Inr entry, tr1)"
    and r: "build_batches en p rest tr1 = (Inr more, tr')"
    and es: "entries = entry # more"
    by (auto simp: io_Inr)
  obtain tx sg where entry: "entry = (tx, sg)" by (cases entry)
  from build_batchTx_result [OF e [unfolded entry]] have "batch_entry batch entry"
    by (simp add: batch_entry_def entry)
  with Cons.IH [OF r] es show ?case by simp
qed

lemma build_firstTx_result:
  assumes "build_firstTx en p meta tr = (Inr tx, tr')"
  shows "required_signers tx = {publicKey (creator p), publicKey (mint p)}"
proof -
  from assms obtain tipIxs tr1 buyTx where
    t: "jito_tip en (jitoConfig p) (Inr (publicKey (creator p))) tr = (Inr tipIxs, tr1)"
    and b: "(if buyAmountSol p > 0
             then io_bind (getGlobalAccount en)
                    (\<lambda>globalAccount.
                       io_bind (io_lift (getInitialBuyPrice en globalAccount (buyAmountSol p)))
                         (\<lambda>buyAmount.
                            io_bind (io_lift (calculateWithSlippageBuy (buyAmountSol p)
                                                (slippage_of p)))
                              (\<lambda>buyAmountWithSlippage.
                                 getBuyInstructions en (publicKey (creator p))
                                   (publicKey (mint p)) (feeRecipient globalAccount)
                                   buyAmount buyAmountWithSlippage)))
             else io_return []) tr1 = (Inr buyTx, tr')"
    and tx: "tx = tipIxs @ getCreateInstructions (publicKey (creator p))
                      (name (createTokenMetadata p)) (symbol (createTokenMetadata p))
                      (metadataUri meta) (mint p) @ buyTx"
    unfolding build_firstTx_def io_bind_Inr io_return_Inr by blast
  have 1: "required_signers tipIxs \<subseteq> {publicKey (creator p)}"
    using jito_tip_result [OF t] by (auto simp: required_signers_def split: if_splits)
  have 2: "required_signers buyTx \<subseteq> {publicKey (creator p)}"
    using b by (auto simp: io_Inr dest: getBuyInstructions_result split: if_splits)
  have 3: "required_signers (getCreateInstructions (publicKey (creator p))
                      (name (createTokenMetadata p)) (symbol (createTokenMetadata p))
                      (metadataUri meta) (mint p)) = {publicKey (creator p), publicKey (mint p)}"
    by (auto simp: getCreateInstructions_def required_signers_def)
  from 1 2 3 tx show ?thesis by auto
qed

lemma ceil4_step: "0 < (n::nat) \<Longrightarrow> Suc ((n - 4 + 3) div 4) = (n + 3) div 4"
proof (cases "4 \<le> n")
  case True
  then obtain m where "n = m + 4" by (metis le_add_diff_inverse2)
  then show ?thesis by simp
next
  case False
  assume "0 < n"
  with False have "n = 1 \<or> n = 2 \<or> n = 3" by linarith
  then show ?thesis by auto
qed

lemma length_batches_from:
  "length (batches_from xs i) = (length xs - i + 3) div 4"
proof (induction xs i rule: batches_from.induct)
  case (1 xs i)
  show ?case
  proof (cases "i < length xs")
    case True
    then have "0 < length xs - i" by simp
    from ceil4_step [OF this] have "Suc ((length xs - (i + 4) + 3) div 4) = (length xs - i + 3) div 4"
      by (simp add: diff_diff_left add.commute)
    with True "1" show ?thesis
      by (subst batches_from.simps) (simp add: MAX_BUNDLED_BUYS_PER_TX_def)
  next
    case False
    then show ?thesis by (subst batches_from.simps) simp
  qed
qed

lemma nth_batches_from:
  "k < length (batches_from xs i) \<Longrightarrow> batches_from xs i ! k = take 4 (drop (i + 4 * k) xs)"
proof (induction xs i arbitrary: k rule: batches_from.induct)
  case (1 xs i)
  show ?case
  proof (cases "i < length xs")
    case True
    have unf: "batches_from xs i = slice xs i (i + 4) # batches_from xs (i + 4)"
      using True by (subst batches_from.simps) (simp add: MAX_BUNDLED_BUYS_PER_TX_def)
    show ?thesis
    proof (cases k)
      case 0
      then show ?thesis by (simp add: unf slice_def)
    next
      case (Suc j)
      with "1.prems" unf have "j < length (batches_from xs (i + 4))" by simp
      from "1.IH" [OF True this [unfolded MAX_BUNDLED_BUYS_PER_TX_def [symmetric]]] 
      show ?thesis using Suc unf by (simp add: MAX_BUNDLED_BUYS_PER_TX_def add.assoc)
    qed
  next
    case False
    with "1.prems" show ?thesis by (subst (asm) batches_from.simps) simp
  qed
qed

lemma concat_batches_from: "concat (batches_from xs i) = drop i xs"
proof (induction xs i rule: batches_from.induct)
  case (1 xs i)
  show ?case
  proof (cases "i < length xs")
    case True
    have "drop i xs = take 4 (drop i xs) @ drop (i + 4) xs"
      by (metis append_take_drop_id drop_drop add.commute)
    then show ?thesis using True "1"
      by (subst batches_from.simps) (simp add: MAX_BUNDLED_BUYS_PER_TX_def slice_def)
  next
    case False
    then show ?thesis by (subst batches_from.simps) simp
  qed
qed

lemma batches_from_Nil: "batches_from [] 0 = []"
  by (subst batches_from.simps) simp

lemma createAndBuy_plan_result:
  assumes "createAndBuy_plan en p tr = (Inr plan, tr')"
  shows "\<exists>meta tr1 firstTx tr2 entries.
           sdk_createTokenMetadata en (createTokenMetadata p) tr = (Inr meta, tr1)
         \<and> build_firstTx en p meta tr1 = (Inr firstTx, tr2)
         \<and> plan = (firstTx, [creator p, mint p]) # entries
         \<and> list_all2 batch_entry (bundled_batches p) entries"
proof -
  from assms obtain meta tr1 firstTx tr2 entries where
    m: "sdk_createTokenMetadata en (createTokenMetadata p) tr = (Inr meta, tr1)"
    and f: "build_firstTx en p meta tr1 = (Inr firstTx, tr2)"
    and r: "(case bundledBuys p of
                    None \<Rightarrow> io_return []
                  | Some buys \<Rightarrow>
                      if length buys > 0 then build_batches en p (batches_from buys 0)
                      else io_return []) tr2 = (Inr entries, tr')"
    and pl: "plan = (firstTx, [creator p, mint p]) # entries"
    unfolding createAndBuy_plan_def io_bind_Inr io_return_Inr by blast
  have "list_all2 batch_entry (bundled_batches p) entries"
    using r
    by (auto simp: bundled_batches_def io_Inr batches_from_Nil
        dest: build_batches_result split: option.splits if_splits)
  with m f pl show ?thesis by blast
qed

section \<open>Evaluating the sample requests\<close>

lemmas sample_defs = sample_env_def sample_params_def sample_metadata_def sample_global_def
  nine_buyers_def bundled_def sample_curve_def relay_rejection_def relay_on_def five_buyers_def
  failing_lookup_env_def no_logs_env_def onchain_failure_env_def

lemmas plan_defs = createAndBuy_plan_def sdk_createTokenMetadata_def build_firstTx_def
  jito_tip_def jito_on_def getGlobalAccount_def getBuyInstructions_eq
  calculateWithSlippageBuy_eq bigint_quot_def getCreateInstructions_def slippage_of_def
  build_batchTx_def first_signer_def tip_or_default_def getRandomTipAccount_def random_element_def
  TIP_ACCOUNTS_def TIP_LAMPORTS_def

lemmas batches_unroll = batches_from.simps [of _ 0] batches_from.simps [of _ 4]
  batches_from.simps [of _ 8] batches_from.simps [of _ 12] slice_def MAX_BUNDLED_BUYS_PER_TX_def

lemma sample_plan_returns:
  "\<exists>plan tr'. createAndBuy_plan sample_env (sample_params 100000 None (Some nine_buyers)) []
                 = (Inr plan, tr')"
  by (simp add: plan_defs io_defs batches_unroll sample_defs)

lemma sample_relay_plan_returns:
  "\<exists>plan tr'. createAndBuy_plan sample_env (sample_params 100000 relay_on (Some nine_buyers)) []
                 = (Inr plan, tr')"
  by (simp add: plan_defs io_defs batches_unroll sample_defs)

lemmas send_defs = createAndBuy_def sendTx_def buildVersionedTx_def sign_def getTxDetails_def
  is_base58_def BASE58_ALPHABET_def priority_instructions_def first_payer_def failed_with_def
  errorLogs_of_def submit_bundle_def endpoint_or_random_def config_endpoint_def sendBundle_def
  getRandomJitoMainnetEndpoint_def JITO_MAINNET_ENDPOINTS_def getLogs_def

section \<open>Building the instructions of a buy\<close>

lemma getBuyInstructionsBySolAmount_result:
  assumes "getBuyInstructionsBySolAmount en buyer mintKey sol slip tr = (Inr ixs, tr')"
    and "0 \<le> sol" and "0 \<le> slip"
  shows "\<exists>quote fee pre.
           ixs = pre @ [PumpBuy quote (sol + (sol * slip) div 10000) fee mintKey
                          (AssociatedTokenAddress mintKey (BondingCurvePDA mintKey))
                          (AssociatedTokenAddress mintKey buyer) buyer]
         \<and> (pre = [] \<or> pre = [CreateAssociatedTokenAccount buyer
                                  (AssociatedTokenAddress mintKey buyer) buyer mintKey])"
proof -
  have q: "0 \<le> (sol * slip) div 10000"
    using assms(2,3) by (simp add: pos_imp_zdiv_nonneg_iff)
  then have a: "\<bar>sol + (sol * slip) div 10000\<bar> = sol + (sol * slip) div 10000"
    using assms(2) by simp
  show ?thesis
    using assms(1) a
    by (auto simp: getBuyInstructionsBySolAmount_def io_Inr getBuyInstructions_eq
        calculateWithSlippageBuy_eq slippage_delta_nonneg [OF assms(2,3)]
        split: option.splits if_splits)
qed

lemma build_firstTx_no_buy:
  assumes "buyAmountSol p \<le> 0"
  shows "build_firstTx en p meta tr =
           (if jito_on (jitoConfig p)
            then (Inr (SystemTransfer (publicKey (creator p))
                         (Address (TIP_ACCOUNTS ! (math_random en tr (length TIP_ACCOUNTS)
                                                     mod length TIP_ACCOUNTS)))
                         (tip_or_default (jitoConfig p))
                       # getCreateInstructions (publicKey (creator p))
                           (name (createTokenMetadata p)) (symbol (createTokenMetadata p))
                           (metadataUri meta) (mint p)),
                  tr @ [EvMathRandom])
            else (Inr (getCreateInstructions (publicKey (creator p))
                         (name (createTokenMetadata p)) (symbol (createTokenMetadata p))
                         (metadataUri meta) (mint p)),
                  tr))"
  using assms
  by (simp add: build_firstTx_def jito_tip_def getRandomTipAccount_def random_element_def io_defs)

lemma sdk_createTokenMetadata_trace:
  "sdk_createTokenMetadata en c tr = (Inr meta, tr1) \<Longrightarrow> tr1 = tr @ [EvUploadMetadata c]"
  by (auto simp: sdk_createTokenMetadata_def io_defs split: file_value.splits sum.splits if_splits option.splits)


section \<open>Submission\<close>

lemma send_sequential_second_fails:
  assumes "first_payer s1 = Inr p1"
    and "sendTx en t1 p1 s1 pf False TIP_LAMPORTS None tr = (Inr r1, tr1)"
    and "success r1"
    and "first_payer s2 = Inr p2"
    and "sendTx en t2 p2 s2 pf False TIP_LAMPORTS None tr1 = (outcome, tr2)"
    and "sendTx_failed outcome"
  shows "send_sequential en pf 0 None [(t1, s1), (t2, s2), (t3, s3)] tr
           = (case outcome of Inl e \<Rightarrow> Inl e | Inr r2 \<Rightarrow> Inr (Some r2), tr2)"
  using assms by (cases outcome) (simp_all add: io_defs sendTx_failed_def)

lemma getTxDetails_submissions:
  "getTxDetails en sig tr = (r, tr') \<Longrightarrow> \<exists>evs. tr' = tr @ evs \<and> filter is_submission evs = []"
  by (auto simp: getTxDetails_def io_defs split: if_splits sum.splits)

lemma sendTx_catch_submissions:
  "sendTx_catch en e tr = (r, tr') \<Longrightarrow> \<exists>evs. tr' = tr @ evs \<and> filter is_submission evs = []"
  by (cases e) (auto simp: getLogs_def io_defs split: option.splits sum.splits)

lemma sendTx_direct_submissions:
  assumes "sendTx en tx payer signers pf False tipL ep tr = (r, tr')"
  shows "\<exists>evs. tr' = tr @ evs \<and> length (filter is_submission evs) \<le> 1"
proof (cases "rpc_getLatestBlockhash en tr")
  case (Inl e)
  with assms show ?thesis
    by (auto simp: sendTx_def buildVersionedTx_def io_defs)
next
  case (Inr bh)
  define vtx where "vtx = sign \<lparr>payerKey = payer, recentBlockhash = bh,
      instructions = priority_instructions pf @ tx, signatures = []\<rparr> signers"
  define sent where "sent = tr @ [EvGetLatestBlockhash, EvSendTransaction vtx]"
  show ?thesis
  proof (cases "rpc_sendTransaction en (tr @ [EvGetLatestBlockhash]) vtx")
    case (Inl e)
    with assms Inr have "sendTx_catch en e sent = (r, tr')"
      by (simp add: sendTx_def buildVersionedTx_def io_defs vtx_def sent_def)
    from sendTx_catch_submissions [OF this] show ?thesis
      by (auto simp: sent_def)
  next
    case sg: (Inr sig)
    obtain d tr3 where d: "getTxDetails en sig sent = (d, tr3)"
      by (cases "getTxDetails en sig sent")
    from getTxDetails_submissions [OF d] obtain evs where
      evs: "tr3 = sent @ evs" "filter is_submission evs = []"
      by blast
    show ?thesis
    proof (cases d)
      case (Inl e)
      with assms Inr sg d have "sendTx_catch en e tr3 = (r, tr')"
        by (simp add: sendTx_def buildVersionedTx_def io_defs vtx_def sent_def)
      from sendTx_catch_submissions [OF this] evs show ?thesis
        by (auto simp: sent_def)
    next
      case (Inr details)
      with assms \<open>rpc_getLatestBlockhash en tr = Inr bh\<close> sg d have "tr' = tr3"
        by (auto simp: sendTx_def buildVersionedTx_def io_defs vtx_def sent_def
            split: option.splits)
      with evs show ?thesis by (simp add: sent_def)
    qed
  qed
qed

lemma random_endpoint_nonempty:
  "getRandomJitoMainnetEndpoint en tr = (Inr ep, tr') \<Longrightarrow> ep \<noteq> []"
proof -
  assume a: "getRandomJitoMainnetEndpoint en tr = (Inr ep, tr')"
  have ne: "\<forall>e \<in> set JITO_MAINNET_ENDPOINTS. e \<noteq> []"
    by (simp add: JITO_MAINNET_ENDPOINTS_def)
  have "length JITO_MAINNET_ENDPOINTS = 6" by (simp add: JITO_MAINNET_ENDPOINTS_def)
  then have "JITO_MAINNET_ENDPOINTS ! (i mod length JITO_MAINNET_ENDPOINTS) \<in> set JITO_MAINNET_ENDPOINTS" for i
    by (intro nth_mem) simp
  with a ne show ?thesis
    by (auto simp: getRandomJitoMainnetEndpoint_def random_element_def io_defs)
qed

lemma endpoint_or_random_nonempty:
  "endpoint_or_random en e tr = (Inr ep, tr') \<Longrightarrow> ep \<noteq> []"
  by (auto simp: endpoint_or_random_def io_defs dest: random_endpoint_nonempty
      split: option.splits if_splits)

lemma sendBundle_eq: "ep \<noteq> [] \<Longrightarrow> sendBundle en txs ep tr = (jito_sendBundle en tr txs ep, tr @ [EvSendBundle txs ep])"
  by (simp add: sendBundle_def io_defs)

lemma adds_onlyD:
  "adds_only P m \<Longrightarrow> m tr = (r, tr') \<Longrightarrow> \<exists>evs. tr' = tr @ evs \<and> list_all P evs"
proof -
  assume a: "adds_only P m" and m: "m tr = (r, tr')"
  from a obtain evs where "snd (m tr) = tr @ evs" "list_all P evs"
    unfolding adds_only_def by blast
  with m show ?thesis by simp
qed

lemma planning_no_submission:
  "list_all planning_event evs \<Longrightarrow> filter is_submission evs = []"
  by (induction evs) (simp_all add: planning_event_def)

lemma submit_bundle_rejected:
  assumes "serialize_all en plan tr1 = (Inr txs, tr2)"
    and "endpoint_or_random en (config_endpoint cfg) tr2 = (Inr ep, tr3)"
    and "jito_sendBundle en tr3 txs ep = Inr response"
    and "truthy (resp_error response)"
  shows "submit_bundle en cfg plan tr1 =
           (Inr \<lparr>signature = None,
                 error = Some (ErrError (''Jito bundle error: ''
                                           @ JSON_stringify en (resp_error response))),
                 results = None, success = False\<rparr>,
            tr3 @ [EvSendBundle txs ep])"
  using assms endpoint_or_random_nonempty [OF assms(2)]
  by (simp add: submit_bundle_def io_bind_def sendBundle_eq io_return_def)

lemma createAndBuy_relay_rejected:
  assumes "jito_on (jitoConfig p)"
    and "createAndBuy_plan en p tr0 = (Inr plan, tr1)"
    and "serialize_all en plan tr1 = (Inr txs, tr2)"
    and "endpoint_or_random en (config_endpoint (jitoConfig p)) tr2 = (Inr ep, tr3)"
    and "jito_sendBundle en tr3 txs ep = Inr response"
    and "truthy (resp_error response)"
  shows "createAndBuy en p tr0 =
           (Inr (Some \<lparr>signature = None,
                       error = Some (ErrError (''Jito bundle error: ''
                                                 @ JSON_stringify en (resp_error response))),
                       results = None, success = False\<rparr>),
            tr3 @ [EvSendBundle txs ep])"
    and "filter is_submission (drop (length tr0) (tr3 @ [EvSendBundle txs ep])) = [EvSendBundle txs ep]"
proof -
  show "createAndBuy en p tr0 =
           (Inr (Some \<lparr>signature = None,
                       error = Some (ErrError (''Jito bundle error: ''
                                                 @ JSON_stringify en (resp_error response))),
                       results = None, success = False\<rparr>),
            tr3 @ [EvSendBundle txs ep])"
    using assms(1,2) submit_bundle_rejected [OF assms(3-6)]
    by (simp add: createAndBuy_def io_bind_def io_return_def)
  from adds_onlyD [OF adds_only_createAndBuy_plan assms(2)] obtain e1 where
    e1: "tr1 = tr0 @ e1" "list_all planning_event e1" by blast
  from adds_onlyD [OF adds_only_serialize_all assms(3)] obtain e2 where
    e2: "tr2 = tr1 @ e2" "list_all planning_event e2" by blast
  have "adds_only planning_event (endpoint_or_random en (config_endpoint (jitoConfig p)))"
    by (rule adds_only_endpoint_or_random) (simp add: planning_event_def)
  from adds_onlyD [OF this assms(4)] obtain e3 where
    e3: "tr3 = tr2 @ e3" "list_all planning_event e3" by blast
  from e1 e2 e3 show "filter is_submission (drop (length tr0) (tr3 @ [EvSendBundle txs ep])) = [EvSendBundle txs ep]"
    by (simp add: planning_no_submission)
qed

lemma sendTx_relay_rejected:
  assumes "getRandomTipAccount en tr = (Inr tip, tr1)"
    and "buildVersionedTx en payer (priority_instructions pf @ [SystemTransfer payer (Address tip) tipL] @ tx) tr1
           = (Inr built, tr2)"
    and "endpoint_or_random en jitoEndpoint tr2 = (Inr ep, tr3)"
    and "jito_sendBundle en tr3 [sign built signers] ep = Inr response"
    and "truthy (resp_error response)"
  shows "sendTx en tx payer signers pf True tipL jitoEndpoint tr =
           (Inr (failed_with (''Unknown Error: Jito bundle error: ''
                                @ JSON_stringify en (resp_error response)) None),
            tr3 @ [EvSendBundle [sign built signers] ep])"
    and "filter is_submission (drop (length tr) (tr3 @ [EvSendBundle [sign built signers] ep]))
           = [EvSendBundle [sign built signers] ep]"
proof -
  show "sendTx en tx payer signers pf True tipL jitoEndpoint tr =
           (Inr (failed_with (''Unknown Error: Jito bundle error: ''
                                @ JSON_stringify en (resp_error response)) None),
            tr3 @ [EvSendBundle [sign built signers] ep])"
    using assms endpoint_or_random_nonempty [OF assms(3)]
    by (simp add: sendTx_def io_bind_def io_catch_def io_return_def io_throw_def sendBundle_eq)
  have "adds_only planning_event (getRandomTipAccount en)"
    unfolding getRandomTipAccount_def by (rule adds_only_random_element) (simp add: planning_event_def)
  from adds_onlyD [OF this assms(1)] obtain e1 where
    e1: "tr1 = tr @ e1" "list_all planning_event e1" by blast
  from adds_onlyD [OF adds_only_buildVersionedTx assms(2)] obtain e2 where
    e2: "tr2 = tr1 @ e2" "list_all planning_event e2" by blast
  have "adds_only planning_event (endpoint_or_random en jitoEndpoint)"
    by (rule adds_only_endpoint_or_random) (simp add: planning_event_def)
  from adds_onlyD [OF this assms(3)] obtain e3 where
    e3: "tr3 = tr2 @ e3" "list_all planning_event e3" by blast
  from e1 e2 e3 show "filter is_submission (drop (length tr) (tr3 @ [EvSendBundle [sign built signers] ep]))
           = [EvSendBundle [sign built signers] ep]"
    by (simp add: planning_no_submission)
qed

section \<open>Claims about the plan\<close>

text \<open>
  Claim C7. For every plan that \<^verbatim>\<open>createAndBuy\<close> produces, whatever the number of
  bundled buys and whether or not relay routing is enabled: the primary transaction
  is signed by the creator and the mint keypair, which are exactly its required
  signers; each further transaction is signed by exactly the signers of the bundled
  buys of its batch, in order, and holds one buy for each of them; and for every
  transaction of the plan the attached signers are exactly the accounts whose
  instructions appear in it.
\<close>

theorem C7_signer_sets:
  assumes "createAndBuy_plan en p tr = (Inr plan, tr')"
  shows "(\<exists>firstTx entries.
            plan = (firstTx, [creator p, mint p]) # entries
          \<and> required_signers firstTx = {publicKey (creator p), publicKey (mint p)}
          \<and> list_all2 batch_entry (bundled_batches p) entries)
       \<and> (\<forall>entry \<in> set plan. required_signers (fst entry) = set (map publicKey (snd entry)))"
proof -
  from createAndBuy_plan_result [OF assms] obtain meta tr1 firstTx tr2 entries where
    f: "build_firstTx en p meta tr1 = (Inr firstTx, tr2)"
    and pl: "plan = (firstTx, [creator p, mint p]) # entries"
    and es: "list_all2 batch_entry (bundled_batches p) entries"
    by blast
  have rs: "required_signers firstTx = {publicKey (creator p), publicKey (mint p)}"
    by (rule build_firstTx_result [OF f])
  have "\<forall>entry \<in> set entries. required_signers (fst entry) = set (map publicKey (snd entry))"
    using es by (induction rule: list_all2_induct) (simp_all add: batch_entry_def)
  with rs pl es show ?thesis by auto
qed

theorem C7_signer_sets_witness:
  "\<exists>plan tr'.
     createAndBuy_plan sample_env (sample_params 100000 relay_on (Some nine_buyers)) []
       = (Inr plan, tr')
   \<and> snd (hd plan) = [\<lparr>publicKey = Address ''creator''\<rparr>, \<lparr>publicKey = Address ''mint''\<rparr>]
   \<and> length plan = 4
   \<and> (\<forall>entry \<in> set plan. required_signers (fst entry) = set (map publicKey (snd entry)))"
proof -
  obtain plan tr' where
    e: "createAndBuy_plan sample_env (sample_params 100000 relay_on (Some nine_buyers)) []
          = (Inr plan, tr')"
    using sample_relay_plan_returns by blast
  have b: "bundled_batches (sample_params 100000 relay_on (Some nine_buyers))
             = batches_from nine_buyers 0"
    by (simp add: bundled_batches_def sample_params_def)
  have l: "length (batches_from nine_buyers 0) = 3"
    by (simp add: length_batches_from nine_buyers_def)
  from C7_signer_sets [OF e] e b l show ?thesis
    by (auto simp: sample_params_def dest: list_all2_lengthD)
qed

text \<open>
  Claim C2. For every request with \<open>N \<ge> 1\<close> bundled buyers whose planning returns,
  the plan has exactly one primary transaction and \<open>\<lceil>N / K\<rceil>\<close> secondary ones, where
  \<open>K = MAX_BUNDLED_BUYS_PER_TX = 4\<close>; the \<open>k\<close>-th secondary transaction is signed by
  the buyers \<open>K * k, ..., K * k + K - 1\<close> of the request and holds one buy for each
  of them, at least one and at most \<open>K\<close>; with \<open>N = 9\<close> there are three secondary
  transactions and the last one holds exactly one buy.
\<close>

theorem C2_batch_count:
  assumes "createAndBuy_plan en p tr = (Inr plan, tr')"
    and "bundledBuys p = Some buys" and "1 \<le> length buys"
  shows "length plan = 1 + (length buys + MAX_BUNDLED_BUYS_PER_TX - 1) div MAX_BUNDLED_BUYS_PER_TX
       \<and> (\<forall>k < (length buys + MAX_BUNDLED_BUYS_PER_TX - 1) div MAX_BUNDLED_BUYS_PER_TX.
            snd (plan ! Suc k)
              = map signer (take MAX_BUNDLED_BUYS_PER_TX (drop (MAX_BUNDLED_BUYS_PER_TX * k) buys))
          \<and> buy_users (fst (plan ! Suc k)) = map publicKey (snd (plan ! Suc k))
          \<and> 1 \<le> length (buy_users (fst (plan ! Suc k)))
          \<and> length (buy_users (fst (plan ! Suc k))) \<le> MAX_BUNDLED_BUYS_PER_TX)
       \<and> (length buys = 9 \<longrightarrow> length plan = 4 \<and> length (buy_users (fst (plan ! 3))) = 1)"
proof -
  from createAndBuy_plan_result [OF assms(1)] obtain firstTx entries where
    pl: "plan = (firstTx, [creator p, mint p]) # entries"
    and es: "list_all2 batch_entry (batches_from buys 0) entries"
    by (auto simp: bundled_batches_def assms(2))
  have len: "length entries = (length buys + 3) div 4"
    using es by (simp add: list_all2_lengthD [symmetric] length_batches_from)
  have nth: "snd (entries ! k) = map signer (take 4 (drop (4 * k) buys))
           \<and> buy_users (fst (entries ! k)) = map publicKey (snd (entries ! k))
           \<and> 1 \<le> length (buy_users (fst (entries ! k)))
           \<and> length (buy_users (fst (entries ! k))) \<le> 4"
    if k: "k < (length buys + 3) div 4" for k
  proof -
    from k have k': "k < length (batches_from buys 0)" by (simp add: length_batches_from)
    with es have be: "batch_entry (batches_from buys 0 ! k) (entries ! k)"
      by (simp add: list_all2_conv_all_nth)
    have b: "batches_from buys 0 ! k = take 4 (drop (4 * k) buys)"
      using nth_batches_from [OF k'] by simp
    from k have "4 * k < length buys" by linarith
    then have "1 \<le> length (take 4 (drop (4 * k) buys))" by simp
    with be b show ?thesis by (simp add: batch_entry_def)
  qed
  have nine: "length plan = 4 \<and> length (buy_users (fst (plan ! 3))) = 1" if "length buys = 9"
  proof -
    from that len have l: "length entries = 3" by simp
    from that have "(2::nat) < (length buys + 3) div 4" by simp
    from nth [OF this] that have "length (buy_users (fst (entries ! 2))) = 1"
      by simp
    with l pl show ?thesis by (simp add: numeral_3_eq_3 numeral_2_eq_2)
  qed
  have c: "(length buys + 4 - 1) div 4 = (length buys + 3) div 4"
    by simp
  have K: "MAX_BUNDLED_BUYS_PER_TX = 4"
    by (simp add: MAX_BUNDLED_BUYS_PER_TX_def)
  have "length plan = 1 + (length buys + 3) div 4"
    using len pl by simp
  moreover have "\<forall>k < (length buys + 3) div 4.
            snd (plan ! Suc k) = map signer (take 4 (drop (4 * k) buys))
          \<and> buy_users (fst (plan ! Suc k)) = map publicKey (snd (plan ! Suc k))
          \<and> 1 \<le> length (buy_users (fst (plan ! Suc k)))
          \<and> length (buy_users (fst (plan ! Suc k))) \<le> 4"
    using nth unfolding pl nth_Cons_Suc by blast
  ultimately show ?thesis
    unfolding K c using nine by blast
qed

theorem C2_batch_count_witness:
  "\<exists>plan tr'.
     createAndBuy_plan sample_env (sample_params 100000 None (Some nine_buyers)) []
       = (Inr plan, tr')
   \<and> bundledBuys (sample_params 100000 None (Some nine_buyers)) = Some nine_buyers
   \<and> 1 \<le> length nine_buyers
   \<and> length plan = 4
   \<and> length (buy_users (fst (plan ! 1))) = 4
   \<and> length (buy_users (fst (plan ! 2))) = 4
   \<and> buy_users (fst (plan ! 3)) = [Address ''b9'']"
proof -
  obtain plan tr' where
    e: "createAndBuy_plan sample_env (sample_params 100000 None (Some nine_buyers)) []
          = (Inr plan, tr')"
    using sample_plan_returns by blast
  have b: "bundledBuys (sample_params 100000 None (Some nine_buyers)) = Some nine_buyers"
    by (simp add: sample_params_def)
  have l: "1 \<le> length nine_buyers" and n: "length nine_buyers = 9"
    by (simp_all add: nine_buyers_def)
  note r = C2_batch_count [OF e b l, unfolded MAX_BUNDLED_BUYS_PER_TX_def n]
  from r have "length plan = 4" by simp
  moreover from r have a: "\<forall>k<3. snd (plan ! Suc k) = map signer (take 4 (drop (4 * k) nine_buyers))
     \<and> buy_users (fst (plan ! Suc k)) = map publicKey (snd (plan ! Suc k))" by simp
  have "length (buy_users (fst (plan ! 1))) = 4"
    using a [rule_format, of 0] by (simp add: nine_buyers_def)
  moreover have "length (buy_users (fst (plan ! 2))) = 4"
    using a [rule_format, of 1] by (simp add: nine_buyers_def numeral_2_eq_2)
  moreover have "buy_users (fst (plan ! 3)) = [Address ''b9'']"
    using a [rule_format, of 2] by (simp add: nine_buyers_def bundled_def numeral_3_eq_3 numeral_2_eq_2)
  ultimately show ?thesis using e b l by blast
qed

section \<open>Claims about the instructions of a buy and the primary transaction\<close>

text \<open>
  Claim C8, as the code has it. The claim ties the create-holding-account instruction
  to a lookup that reports absence, for every buy request. The \<^verbatim>\<open>catch\<close> of
  \<^verbatim>\<open>getBuyInstructions\<close> takes every thrown value for absence: when the lookup fails for
  another reason (here the fetch itself fails), the instruction is emitted as well,
  whether or not the account exists. And not every request gets its instructions:
  for a buyer off the curve the function throws before the lookup, for an amount of
  \<open>2 ^ 64\<close> it throws after it, and of a negative amount the buy instruction carries
  the magnitude.
\<close>

theorem C8_lookup_failure_counterexample:
  "spl_getAccount failing_lookup_env []
       (AssociatedTokenAddress (Address ''mint'') (Address ''buyer''))
      = Inl (Error ''failed to fetch'')
   \<and> getBuyInstructions failing_lookup_env (Address ''buyer'') (Address ''mint'')
        (Address ''feeRecipient'') 1000 1050 []
      = (Inr [CreateAssociatedTokenAccount (Address ''buyer'')
                (AssociatedTokenAddress (Address ''mint'') (Address ''buyer''))
                (Address ''buyer'') (Address ''mint''),
              PumpBuy 1000 1050 (Address ''feeRecipient'') (Address ''mint'')
                (AssociatedTokenAddress (Address ''mint'') (BondingCurvePDA (Address ''mint'')))
                (AssociatedTokenAddress (Address ''mint'') (Address ''buyer''))
                (Address ''buyer'')],
         [EvGetAccount (AssociatedTokenAddress (Address ''mint'') (Address ''buyer''))])
   \<and> getBuyInstructions sample_env (OffCurveAddress ''vault'') (Address ''mint'')
        (Address ''feeRecipient'') 1000 1050 []
      = (Inl TokenOwnerOffCurveError, [])
   \<and> isl (fst (getBuyInstructions sample_env (Address ''buyer'') (Address ''mint'')
                  (Address ''feeRecipient'') (2 ^ 64) 1050 []))
   \<and> fst (getBuyInstructions sample_env (Address ''buyer'') (Address ''mint'')
             (Address ''feeRecipient'') (- 1) (- 1050) [])
      = Inr [PumpBuy 1 1050 (Address ''feeRecipient'') (Address ''mint'')
               (AssociatedTokenAddress (Address ''mint'') (BondingCurvePDA (Address ''mint'')))
               (AssociatedTokenAddress (Address ''mint'') (Address ''buyer''))
               (Address ''buyer'')]"
  by (simp add: getBuyInstructions_eq failing_lookup_env_def sample_env_def)

text \<open>
  Claim C8, amended. For every buy request whose buyer is on the curve and whose token
  amount and maximum spend are in the range of \<^verbatim>\<open>u64\<close> (from \<open>0\<close> up to, not including,
  \<open>2 ^ 64\<close>), \<^verbatim>\<open>getBuyInstructions\<close> returns after exactly one lookup of the buyer's
  holding account: the create-holding-account instruction comes before the buy
  instruction if and only if the lookup throws (for absence or for any other reason),
  and no thrown value of the lookup is surfaced; when the lookup returns the account,
  the sequence is the single buy instruction. The buy instruction carries the token
  amount and the maximum spend it was given. Where
  \<^verbatim>\<open>getBuyInstructionsBySolAmount\<close> returns, for an amount and a slippage that are not
  negative, the maximum spend it carries is the slippage-bounded one, the amount plus
  \<open>\<lfloor>amount * slippage / 10000\<rfloor>\<close>.
\<close>

theorem C8_buy_instructions:
  "(isOnCurve buyer \<and> 0 \<le> amount \<and> amount < 2 ^ 64 \<and> 0 \<le> solAmount \<and> solAmount < 2 ^ 64
    \<longrightarrow> getBuyInstructions en buyer mintKey feeRcp amount solAmount tr =
          (Inr ((case spl_getAccount en tr (AssociatedTokenAddress mintKey buyer) of
                   Inr account \<Rightarrow> []
                 | Inl e \<Rightarrow> [CreateAssociatedTokenAccount buyer
                               (AssociatedTokenAddress mintKey buyer) buyer mintKey])
                @ [PumpBuy amount solAmount feeRcp mintKey
                     (AssociatedTokenAddress mintKey (BondingCurvePDA mintKey))
                     (AssociatedTokenAddress mintKey buyer) buyer]),
           tr @ [EvGetAccount (AssociatedTokenAddress mintKey buyer)]))
   \<and> (0 \<le> sol \<and> 0 \<le> slip
    \<longrightarrow> (\<forall>ixs tr'. getBuyInstructionsBySolAmount en buyer mintKey sol slip tr = (Inr ixs, tr')
           \<longrightarrow> (\<exists>quote fee pre.
                 ixs = pre @ [PumpBuy quote (sol + (sol * slip) div 10000) fee mintKey
                                (AssociatedTokenAddress mintKey (BondingCurvePDA mintKey))
                                (AssociatedTokenAddress mintKey buyer) buyer]
               \<and> (pre = [] \<or> pre = [CreateAssociatedTokenAccount buyer
                                        (AssociatedTokenAddress mintKey buyer) buyer mintKey]))))"
  using getBuyInstructionsBySolAmount_result [of en buyer mintKey sol slip tr]
  by (auto simp: getBuyInstructions_eq split: sum.splits)

theorem C8_buy_instructions_witness:
  "isOnCurve (Address ''buyer'') \<and> (0::int) \<le> 1000 \<and> (1000::int) < 2 ^ 64
   \<and> (0::int) \<le> 1050 \<and> (1050::int) < 2 ^ 64
   \<and> getBuyInstructions sample_env (Address ''buyer'') (Address ''mint'')
        (Address ''feeRecipient'') 1000 1050 []
      = (Inr [PumpBuy 1000 1050 (Address ''feeRecipient'') (Address ''mint'')
                (AssociatedTokenAddress (Address ''mint'') (BondingCurvePDA (Address ''mint'')))
                (AssociatedTokenAddress (Address ''mint'') (Address ''buyer''))
                (Address ''buyer'')],
         [EvGetAccount (AssociatedTokenAddress (Address ''mint'') (Address ''buyer''))])
   \<and> (0::int) \<le> 1000000 \<and> (0::int) \<le> 500
   \<and> fst (getBuyInstructionsBySolAmount sample_env (Address ''buyer'') (Address ''mint'')
             1000000 500 [])
      = Inr [PumpBuy 35765474484 1050000 (Address ''feeRecipient'') (Address ''mint'')
               (AssociatedTokenAddress (Address ''mint'') (BondingCurvePDA (Address ''mint'')))
               (AssociatedTokenAddress (Address ''mint'') (Address ''buyer''))
               (Address ''buyer'')]"
  using C8_buy_instructions [of "Address ''buyer''" 1000 1050 sample_env "Address ''mint''"
      "Address ''feeRecipient''" "[]" 1000000 500]
  by (simp add: getBuyInstructionsBySolAmount_def getBondingCurveAccount_def getGlobalAccount_def
      getBuyInstructions_eq calculateWithSlippageBuy_eq bigint_quot_def io_defs sample_defs)

lemma createAndBuy_plan_no_bundle:
  assumes "createAndBuy_plan en p tr = (Inr plan, tr')"
  shows "\<exists>meta firstTx tr2.
           sdk_createTokenMetadata en (createTokenMetadata p) tr
             = (Inr meta, tr @ [EvUploadMetadata (createTokenMetadata p)])
         \<and> build_firstTx en p meta (tr @ [EvUploadMetadata (createTokenMetadata p)])
             = (Inr firstTx, tr2)
         \<and> hd plan = (firstTx, [creator p, mint p])
         \<and> (bundledBuys p = None \<longrightarrow> plan = [(firstTx, [creator p, mint p])] \<and> tr' = tr2)"
proof -
  from assms obtain meta tr1 firstTx tr2 entries where
    m: "sdk_createTokenMetadata en (createTokenMetadata p) tr = (Inr meta, tr1)"
    and f: "build_firstTx en p meta tr1 = (Inr firstTx, tr2)"
    and r: "(case bundledBuys p of
                    None \<Rightarrow> io_return []
                  | Some buys \<Rightarrow>
                      if length buys > 0 then build_batches en p (batches_from buys 0)
                      else io_return []) tr2 = (Inr entries, tr')"
    and pl: "plan = (firstTx, [creator p, mint p]) # entries"
    unfolding createAndBuy_plan_def io_bind_Inr io_return_Inr by blast
  from sdk_createTokenMetadata_trace [OF m] have tr1: "tr1 = tr @ [EvUploadMetadata (createTokenMetadata p)]" .
  have "bundledBuys p = None \<longrightarrow> entries = [] \<and> tr' = tr2"
    using r by (auto simp: io_Inr)
  with m f pl tr1 show ?thesis by auto
qed

text \<open>
  Claim C10. For every request whose \<^verbatim>\<open>buyAmountSol\<close> is \<open>0\<close> (or less: the guard is
  \<^verbatim>\<open>buyAmountSol > 0\<close>), the primary transaction is the create instruction, preceded
  by a tip transfer if and only if relay routing is enabled, and holds no buy. Building
  it returns whatever the global-account fetch and the quote would answer, and adds to
  the trace only the random choice of the tip account: no global-account fetch and no
  holding-account lookup. When planning returns, the primary transaction of the plan
  is this one; without bundled buys, the whole plan makes no call but the metadata
  upload and that random choice.
\<close>

theorem C10_zero_buy_amount:
  assumes "buyAmountSol p \<le> 0"
  shows "build_firstTx en p meta tr
           = (Inr (tip_and_create en p meta tr),
              tr @ (if jito_on (jitoConfig p) then [EvMathRandom] else []))
       \<and> buy_users (tip_and_create en p meta tr) = []
       \<and> (\<forall>plan tr'. createAndBuy_plan en p tr = (Inr plan, tr') \<longrightarrow>
             (\<exists>uploaded.
                hd plan = (tip_and_create en p uploaded (tr @ [EvUploadMetadata (createTokenMetadata p)]),
                           [creator p, mint p])
              \<and> (bundledBuys p = None \<longrightarrow>
                    tr' = tr @ [EvUploadMetadata (createTokenMetadata p)]
                             @ (if jito_on (jitoConfig p) then [EvMathRandom] else []))))"
proof -
  have A: "build_firstTx en p m t
           = (Inr (tip_and_create en p m t),
              t @ (if jito_on (jitoConfig p) then [EvMathRandom] else []))" for m t
    using build_firstTx_no_buy [OF assms, of en m t] by (simp add: tip_and_create_def)
  have B: "buy_users (tip_and_create en p meta tr) = []"
    by (simp add: tip_and_create_def getCreateInstructions_def)
  have C: "\<exists>uploaded.
                hd plan = (tip_and_create en p uploaded (tr @ [EvUploadMetadata (createTokenMetadata p)]),
                           [creator p, mint p])
              \<and> (bundledBuys p = None \<longrightarrow>
                    tr' = tr @ [EvUploadMetadata (createTokenMetadata p)]
                             @ (if jito_on (jitoConfig p) then [EvMathRandom] else []))"
    if pl: "createAndBuy_plan en p tr = (Inr plan, tr')" for plan tr'
  proof -
    from createAndBuy_plan_no_bundle [OF pl] obtain uploaded firstTx tr2 where
      f: "build_firstTx en p uploaded (tr @ [EvUploadMetadata (createTokenMetadata p)]) = (Inr firstTx, tr2)"
      and h: "hd plan = (firstTx, [creator p, mint p])"
      and n: "bundledBuys p = None \<longrightarrow> tr' = tr2"
      by auto
    from f A have "firstTx = tip_and_create en p uploaded (tr @ [EvUploadMetadata (createTokenMetadata p)])"
      and "tr2 = (tr @ [EvUploadMetadata (createTokenMetadata p)])
                   @ (if jito_on (jitoConfig p) then [EvMathRandom] else [])"
      by simp_all
    with h n show ?thesis by auto
  qed
  from A B C show ?thesis by blast
qed

theorem C10_zero_buy_amount_witness:
  "buyAmountSol (sample_params 0 relay_on None) \<le> 0
   \<and> createAndBuy_plan sample_env (sample_params 0 relay_on None) []
       = (Inr [([SystemTransfer (Address ''creator'')
                   (Address ''96gYZGLnJYVFmbjzopPSU6QiEV5fGqZNyN9nmNhvrZU5'') 100000,
                 PumpCreate ''TST-7'' ''TST-7'' ''ipfs://metadata'' (Address ''mint'')
                   (AssociatedTokenAddress (Address ''mint'') (BondingCurvePDA (Address ''mint'')))
                   (MetadataPDA (Address ''mint'')) (Address ''creator'')],
                [\<lparr>publicKey = Address ''creator''\<rparr>, \<lparr>publicKey = Address ''mint''\<rparr>])],
          [EvUploadMetadata sample_metadata, EvMathRandom])"
  using C10_zero_buy_amount [of "sample_params 0 relay_on None" sample_env
      "\<lparr>metadataUri = ''ipfs://metadata''\<rparr>" "[]"]
  by (simp add: plan_defs io_defs sample_defs)

section \<open>Claims about submission\<close>

text \<open>
  Claim C1, as the code has it. The claim says that when transaction 2 of 3 fails, the
  third is not submitted and the caller gets transaction 1's successful result. With
  five bundled buyers the plan has three transactions. In the first run the node
  accepts the first and rejects the second at submission: \<^verbatim>\<open>sendTx\<close> returns
  \<^verbatim>\<open>success: false\<close> and the loop returns that result
  (\<^verbatim>\<open>if (!result.success) return result;\<close>), so the caller gets transaction 2's
  failure, after two submissions. In the second run the node accepts all three and
  the second fails on chain: \<^verbatim>\<open>getTxDetails\<close> does not look at the confirmation, so
  \<^verbatim>\<open>sendTx\<close> returns \<^verbatim>\<open>success: true\<close>, the third transaction is submitted as well, and
  the caller gets transaction 1's result.
\<close>

theorem C1_returns_failure_counterexample:
  "\<not> isl (fst (createAndBuy_plan sample_env (sample_params 100000 None (Some five_buyers)) []))
   \<and> length (projr (fst (createAndBuy_plan sample_env
                             (sample_params 100000 None (Some five_buyers)) []))) = 3
   \<and> fst (createAndBuy sample_env (sample_params 100000 None (Some five_buyers)) [])
       = Inr (Some \<lparr>signature = None,
                    error = Some (ErrTransactionError
                                    ''Transaction Error: insufficient funds''
                                    (Some [''Program log: Instruction: Buy'',
                                           ''Transfer failed: insufficient lamports''])
                                    (Some [''Transfer failed: insufficient lamports''])),
                    results = None, success = False\<rparr>)
   \<and> length (filter is_submission
              (snd (createAndBuy sample_env (sample_params 100000 None (Some five_buyers)) [])))
       = 2
   \<and> rpc_confirmTransaction onchain_failure_env [] ''sig2'' = Inr (Some ''InstructionError'')
   \<and> EvConfirmTransaction ''sig2''
       \<in> set (snd (createAndBuy onchain_failure_env
                      (sample_params 100000 None (Some five_buyers)) []))
   \<and> fst (createAndBuy onchain_failure_env (sample_params 100000 None (Some five_buyers)) [])
       = Inr (Some \<lparr>signature = Some ''sig1'', error = None,
                    results = Some (TxResponse ''sig1'' None), success = True\<rparr>)
   \<and> length (filter is_submission
              (snd (createAndBuy onchain_failure_env
                      (sample_params 100000 None (Some five_buyers)) [])))
       = 3"
  by (simp add: plan_defs io_defs batches_unroll sample_defs send_defs)

text \<open>
  Claim C1, amended. In the sequential path of \<^verbatim>\<open>createAndBuy\<close>, for every plan of
  three transactions of which the first is sent successfully and for the second
  \<^verbatim>\<open>sendTx\<close> reports a failure (it returns \<^verbatim>\<open>success: false\<close>, or it throws), the third
  transaction is never submitted: the run ends with the trace of the second
  \<^verbatim>\<open>sendTx\<close>, in which at most two submissions were made; and the outcome of
  \<^verbatim>\<open>createAndBuy\<close> is that failure, the failed result of transaction 2 or the value
  thrown, not the result of transaction 1.
\<close>

theorem C1_sequential_second_fails:
  assumes "\<not> jito_on (jitoConfig p)"
    and "createAndBuy_plan en p tr0 = (Inr [(t1, s1), (t2, s2), (t3, s3)], tr)"
    and "first_payer s1 = Inr p1"
    and "sendTx en t1 p1 s1 (priorityFees p) False TIP_LAMPORTS None tr = (Inr r1, tr1)"
    and "success r1"
    and "first_payer s2 = Inr p2"
    and "sendTx en t2 p2 s2 (priorityFees p) False TIP_LAMPORTS None tr1 = (outcome, tr2)"
    and "sendTx_failed outcome"
  shows "createAndBuy en p tr0
           = (case outcome of Inl e \<Rightarrow> Inl e | Inr r2 \<Rightarrow> Inr (Some r2), tr2)
       \<and> length (filter is_submission (drop (length tr) tr2)) \<le> 2"
proof -
  have "send_sequential en (priorityFees p) 0 None [(t1, s1), (t2, s2), (t3, s3)] tr
          = (case outcome of Inl e \<Rightarrow> Inl e | Inr r2 \<Rightarrow> Inr (Some r2), tr2)"
    by (rule send_sequential_second_fails [OF assms(3-8)])
  with assms(1,2) have 1: "createAndBuy en p tr0
          = (case outcome of Inl e \<Rightarrow> Inl e | Inr r2 \<Rightarrow> Inr (Some r2), tr2)"
    by (simp add: createAndBuy_def io_defs)
  from sendTx_direct_submissions [OF assms(4)] obtain e1 where
    e1: "tr1 = tr @ e1" "length (filter is_submission e1) \<le> 1" by blast
  from sendTx_direct_submissions [OF assms(7)] obtain e2 where
    e2: "tr2 = tr1 @ e2" "length (filter is_submission e2) \<le> 1" by blast
  from e1 e2 have "length (filter is_submission (drop (length tr) tr2)) \<le> 2" by simp
  with 1 show ?thesis by simp
qed

lemma sample_sequential_run:
  "\<exists>t1 s1 t2 s2 t3 s3 tr p1 r1 tr1 p2 r2 tr2.
     createAndBuy_plan sample_env (sample_params 100000 None (Some five_buyers)) []
       = (Inr [(t1, s1), (t2, s2), (t3, s3)], tr)
   \<and> first_payer s1 = Inr p1
   \<and> sendTx sample_env t1 p1 s1 (priorityFees (sample_params 100000 None (Some five_buyers)))
        False TIP_LAMPORTS None tr = (Inr r1, tr1)
   \<and> success r1
   \<and> first_payer s2 = Inr p2
   \<and> sendTx sample_env t2 p2 s2 (priorityFees (sample_params 100000 None (Some five_buyers)))
        False TIP_LAMPORTS None tr1 = (Inr r2, tr2)
   \<and> \<not> success r2"
  by (simp add: plan_defs io_defs batches_unroll sample_defs send_defs)

lemma no_logs_sequential_run:
  "\<exists>t1 s1 t2 s2 t3 s3 tr p1 r1 tr1 p2 tr2.
     createAndBuy_plan no_logs_env (sample_params 100000 None (Some five_buyers)) []
       = (Inr [(t1, s1), (t2, s2), (t3, s3)], tr)
   \<and> first_payer s1 = Inr p1
   \<and> sendTx no_logs_env t1 p1 s1 (priorityFees (sample_params 100000 None (Some five_buyers)))
        False TIP_LAMPORTS None tr = (Inr r1, tr1)
   \<and> success r1
   \<and> first_payer s2 = Inr p2
   \<and> sendTx no_logs_env t2 p2 s2 (priorityFees (sample_params 100000 None (Some five_buyers)))
        False TIP_LAMPORTS None tr1 = (Inl (Error ''Log messages not found''), tr2)"
  by (simp add: plan_defs io_defs batches_unroll sample_defs send_defs)

theorem C1_sequential_second_fails_witness:
  "\<not> jito_on (jitoConfig (sample_params 100000 None (Some five_buyers)))
   \<and> (\<exists>t1 s1 t2 s2 t3 s3 tr p1 r1 tr1 p2 r2 tr2.
         createAndBuy_plan sample_env (sample_params 100000 None (Some five_buyers)) []
           = (Inr [(t1, s1), (t2, s2), (t3, s3)], tr)
       \<and> first_payer s1 = Inr p1
       \<and> sendTx sample_env t1 p1 s1
            (priorityFees (sample_params 100000 None (Some five_buyers)))
            False TIP_LAMPORTS None tr = (Inr r1, tr1)
       \<and> success r1
       \<and> first_payer s2 = Inr p2
       \<and> sendTx sample_env t2 p2 s2
            (priorityFees (sample_params 100000 None (Some five_buyers)))
            False TIP_LAMPORTS None tr1 = (Inr r2, tr2)
       \<and> sendTx_failed (Inr r2)
       \<and> createAndBuy sample_env (sample_params 100000 None (Some five_buyers)) []
           = (Inr (Some r2), tr2)
       \<and> length (filter is_submission (drop (length tr) tr2)) \<le> 2)
   \<and> (\<exists>t1 s1 t2 s2 t3 s3 tr p1 r1 tr1 p2 tr2.
         createAndBuy_plan no_logs_env (sample_params 100000 None (Some five_buyers)) []
           = (Inr [(t1, s1), (t2, s2), (t3, s3)], tr)
       \<and> first_payer s1 = Inr p1
       \<and> sendTx no_logs_env t1 p1 s1
            (priorityFees (sample_params 100000 None (Some five_buyers)))
            False TIP_LAMPORTS None tr = (Inr r1, tr1)
       \<and> success r1
       \<and> first_payer s2 = Inr p2
       \<and> sendTx no_logs_env t2 p2 s2
            (priorityFees (sample_params 100000 None (Some five_buyers)))
            False TIP_LAMPORTS None tr1 = (Inl (Error ''Log messages not found''), tr2)
       \<and> sendTx_failed (Inl (Error ''Log messages not found'') :: exn + TransactionResult)
       \<and> createAndBuy no_logs_env (sample_params 100000 None (Some five_buyers)) []
           = (Inl (Error ''Log messages not found''), tr2)
       \<and> length (filter is_submission (drop (length tr) tr2)) \<le> 2)"
proof -
  have j: "\<not> jito_on (jitoConfig (sample_params 100000 None (Some five_buyers)))"
    by (simp add: jito_on_def sample_params_def)
  from sample_sequential_run obtain t1 s1 t2 s2 t3 s3 tr p1 r1 tr1 p2 r2 tr2 where
    h: "createAndBuy_plan sample_env (sample_params 100000 None (Some five_buyers)) []
       = (Inr [(t1, s1), (t2, s2), (t3, s3)], tr)"
     "first_payer s1 = Inr p1"
     "sendTx sample_env t1 p1 s1 (priorityFees (sample_params 100000 None (Some five_buyers)))
        False TIP_LAMPORTS None tr = (Inr r1, tr1)"
     "success r1"
     "first_payer s2 = Inr p2"
     "sendTx sample_env t2 p2 s2 (priorityFees (sample_params 100000 None (Some five_buyers)))
        False TIP_LAMPORTS None tr1 = (Inr r2, tr2)"
    and f: "sendTx_failed (Inr r2)"
    by (auto simp: sendTx_failed_def)
  from no_logs_sequential_run obtain u1 v1 u2 v2 u3 v3 ur q1 w1 ur1 q2 ur2 where
    g: "createAndBuy_plan no_logs_env (sample_params 100000 None (Some five_buyers)) []
       = (Inr [(u1, v1), (u2, v2), (u3, v3)], ur)"
     "first_payer v1 = Inr q1"
     "sendTx no_logs_env u1 q1 v1 (priorityFees (sample_params 100000 None (Some five_buyers)))
        False TIP_LAMPORTS None ur = (Inr w1, ur1)"
     "success w1"
     "first_payer v2 = Inr q2"
     "sendTx no_logs_env u2 q2 v2 (priorityFees (sample_params 100000 None (Some five_buyers)))
        False TIP_LAMPORTS None ur1 = (Inl (Error ''Log messages not found''), ur2)"
    by blast
  have k: "sendTx_failed (Inl (Error ''Log messages not found'') :: exn + TransactionResult)"
    by (simp add: sendTx_failed_def)
  note c = C1_sequential_second_fails [OF j h f]
  note d = C1_sequential_second_fails [OF j g k]
  show ?thesis
    apply (rule conjI [OF j])
    apply (rule conjI)
     apply (rule exI [of _ t1], rule exI [of _ s1], rule exI [of _ t2], rule exI [of _ s2])
     apply (rule exI [of _ t3], rule exI [of _ s3], rule exI [of _ tr], rule exI [of _ p1])
     apply (rule exI [of _ r1], rule exI [of _ tr1], rule exI [of _ p2], rule exI [of _ r2])
     apply (rule exI [of _ tr2])
    using h f c apply simp
    apply (rule exI [of _ u1], rule exI [of _ v1], rule exI [of _ u2], rule exI [of _ v2])
    apply (rule exI [of _ u3], rule exI [of _ v3], rule exI [of _ ur], rule exI [of _ q1])
    apply (rule exI [of _ w1], rule exI [of _ ur1], rule exI [of _ q2], rule exI [of _ ur2])
    using g k d by simp
qed

text \<open>
  Claim C6. In the relay path, a relay answer with a non-empty (truthy) error field is
  total failure, and the bundle is the only submission. For \<^verbatim>\<open>createAndBuy\<close> with relay
  routing enabled: once the plan is built and serialized and the relay answers the
  bundle with such an error, the result is \<^verbatim>\<open>success: false\<close> carrying the relay error,
  and the only submission of the whole run is that one bundle (no transaction is sent
  directly, the bundle is not sent again). For \<^verbatim>\<open>sendTx\<close> with \<^verbatim>\<open>jito = true\<close>: once
  the transaction is built and the relay answers with such an error, the result is
  \<^verbatim>\<open>success: false\<close>, and the only submission is that one bundle.
\<close>

theorem C6_relay_error_is_failure:
  "(jito_on (jitoConfig p)
      \<and> createAndBuy_plan en p tr0 = (Inr plan, tr1)
      \<and> serialize_all en plan tr1 = (Inr txs, tr2)
      \<and> endpoint_or_random en (config_endpoint (jitoConfig p)) tr2 = (Inr ep, tr3)
      \<and> jito_sendBundle en tr3 txs ep = Inr response
      \<and> truthy (resp_error response)
    \<longrightarrow> createAndBuy en p tr0 =
          (Inr (Some \<lparr>signature = None,
                      error = Some (ErrError (''Jito bundle error: ''
                                                @ JSON_stringify en (resp_error response))),
                      results = None, success = False\<rparr>),
           tr3 @ [EvSendBundle txs ep])
      \<and> filter is_submission (drop (length tr0) (tr3 @ [EvSendBundle txs ep]))
          = [EvSendBundle txs ep])
   \<and> (getRandomTipAccount en tr = (Inr tip, tr1')
      \<and> buildVersionedTx en payer
           (priority_instructions pf @ [SystemTransfer payer (Address tip) tipL] @ tx) tr1'
          = (Inr built, tr2')
      \<and> endpoint_or_random en jitoEndpoint tr2' = (Inr ep', tr3')
      \<and> jito_sendBundle en tr3' [sign built signers] ep' = Inr response'
      \<and> truthy (resp_error response')
    \<longrightarrow> sendTx en tx payer signers pf True tipL jitoEndpoint tr =
          (Inr (failed_with (''Unknown Error: Jito bundle error: ''
                               @ JSON_stringify en (resp_error response')) None),
           tr3' @ [EvSendBundle [sign built signers] ep'])
      \<and> \<not> success (failed_with (''Unknown Error: Jito bundle error: ''
                               @ JSON_stringify en (resp_error response')) None)
      \<and> filter is_submission (drop (length tr) (tr3' @ [EvSendBundle [sign built signers] ep']))
          = [EvSendBundle [sign built signers] ep'])"
  using createAndBuy_relay_rejected [of p en tr0 plan tr1 txs tr2 ep tr3 response]
    sendTx_relay_rejected [of en tr tip tr1' payer pf tipL tx built tr2' jitoEndpoint ep' tr3'
      signers response']
  by (simp add: failed_with_def)

lemma sample_relay_run:
  "\<exists>plan tr1 txs tr2 ep tr3 response.
     createAndBuy_plan sample_env (sample_params 100000 relay_on (Some five_buyers)) []
       = (Inr plan, tr1)
   \<and> serialize_all sample_env plan tr1 = (Inr txs, tr2)
   \<and> endpoint_or_random sample_env
        (config_endpoint (jitoConfig (sample_params 100000 relay_on (Some five_buyers)))) tr2
       = (Inr ep, tr3)
   \<and> jito_sendBundle sample_env tr3 txs ep = Inr response
   \<and> truthy (resp_error response)"
  by (simp add: plan_defs io_defs batches_unroll sample_defs send_defs)

lemma sample_relay_sendTx:
  "\<exists>tip tr1 built tr2 ep tr3 response.
     getRandomTipAccount sample_env [] = (Inr tip, tr1)
   \<and> buildVersionedTx sample_env (Address ''buyer'')
        (priority_instructions None @ [SystemTransfer (Address ''buyer'') (Address tip) 100000]
           @ [PumpBuy 1000 1050 (Address ''feeRecipient'') (Address ''mint'')
                (AssociatedTokenAddress (Address ''mint'') (BondingCurvePDA (Address ''mint'')))
                (AssociatedTokenAddress (Address ''mint'') (Address ''buyer''))
                (Address ''buyer'')]) tr1
       = (Inr built, tr2)
   \<and> endpoint_or_random sample_env None tr2 = (Inr ep, tr3)
   \<and> jito_sendBundle sample_env tr3 [sign built [\<lparr>publicKey = Address ''buyer''\<rparr>]] ep
       = Inr response
   \<and> truthy (resp_error response)"
  by (simp add: plan_defs io_defs sample_defs send_defs)

theorem C6_relay_error_is_failure_witness:
  "jito_on (jitoConfig (sample_params 100000 relay_on (Some five_buyers)))
   \<and> (\<exists>plan tr1 txs tr2 ep tr3 response.
         createAndBuy_plan sample_env (sample_params 100000 relay_on (Some five_buyers)) []
           = (Inr plan, tr1)
       \<and> serialize_all sample_env plan tr1 = (Inr txs, tr2)
       \<and> endpoint_or_random sample_env
            (config_endpoint (jitoConfig (sample_params 100000 relay_on (Some five_buyers)))) tr2
           = (Inr ep, tr3)
       \<and> jito_sendBundle sample_env tr3 txs ep = Inr response
       \<and> truthy (resp_error response)
       \<and> createAndBuy sample_env (sample_params 100000 relay_on (Some five_buyers)) []
           = (Inr (Some \<lparr>signature = None,
                       error = Some (ErrError (''Jito bundle error: ''
                                 @ JSON_stringify sample_env (resp_error response))),
                       results = None, success = False\<rparr>),
              tr3 @ [EvSendBundle txs ep])
       \<and> filter is_submission (tr3 @ [EvSendBundle txs ep]) = [EvSendBundle txs ep])
   \<and> (\<exists>tip tr1 built tr2 ep tr3 response.
         getRandomTipAccount sample_env [] = (Inr tip, tr1)
       \<and> buildVersionedTx sample_env (Address ''buyer'')
            (priority_instructions None @ [SystemTransfer (Address ''buyer'') (Address tip) 100000]
               @ [PumpBuy 1000 1050 (Address ''feeRecipient'') (Address ''mint'')
                    (AssociatedTokenAddress (Address ''mint'') (BondingCurvePDA (Address ''mint'')))
                    (AssociatedTokenAddress (Address ''mint'') (Address ''buyer''))
                    (Address ''buyer'')]) tr1
           = (Inr built, tr2)
       \<and> endpoint_or_random sample_env None tr2 = (Inr ep, tr3)
       \<and> jito_sendBundle sample_env tr3 [sign built [\<lparr>publicKey = Address ''buyer''\<rparr>]] ep
           = Inr response
       \<and> truthy (resp_error response)
       \<and> fst (sendTx sample_env
                 [PumpBuy 1000 1050 (Address ''feeRecipient'') (Address ''mint'')
                    (AssociatedTokenAddress (Address ''mint'') (BondingCurvePDA (Address ''mint'')))
                    (AssociatedTokenAddress (Address ''mint'') (Address ''buyer''))
                    (Address ''buyer'')]
                 (Address ''buyer'') [\<lparr>publicKey = Address ''buyer''\<rparr>] None True 100000 None [])
           = Inr (failed_with (''Unknown Error: Jito bundle error: ''
                                 @ JSON_stringify sample_env (resp_error response)) None))"
proof -
  have j: "jito_on (jitoConfig (sample_params 100000 relay_on (Some five_buyers)))"
    by (simp add: jito_on_def sample_params_def relay_on_def)
  from sample_relay_run obtain plan tr1 txs tr2 ep tr3 response where
    a: "createAndBuy_plan sample_env (sample_params 100000 relay_on (Some five_buyers)) []
         = (Inr plan, tr1)"
       "serialize_all sample_env plan tr1 = (Inr txs, tr2)"
       "endpoint_or_random sample_env
          (config_endpoint (jitoConfig (sample_params 100000 relay_on (Some five_buyers)))) tr2
         = (Inr ep, tr3)"
       "jito_sendBundle sample_env tr3 txs ep = Inr response"
       "truthy (resp_error response)"
    by blast
  from sample_relay_sendTx obtain tip tr1' built tr2' ep' tr3' response' where
    b: "getRandomTipAccount sample_env [] = (Inr tip, tr1')"
       "buildVersionedTx sample_env (Address ''buyer'')
          (priority_instructions None @ [SystemTransfer (Address ''buyer'') (Address tip) 100000]
             @ [PumpBuy 1000 1050 (Address ''feeRecipient'') (Address ''mint'')
                  (AssociatedTokenAddress (Address ''mint'') (BondingCurvePDA (Address ''mint'')))
                  (AssociatedTokenAddress (Address ''mint'') (Address ''buyer''))
                  (Address ''buyer'')]) tr1'
         = (Inr built, tr2')"
       "endpoint_or_random sample_env None tr2' = (Inr ep', tr3')"
       "jito_sendBundle sample_env tr3' [sign built [\<lparr>publicKey = Address ''buyer''\<rparr>]] ep'
         = Inr response'"
       "truthy (resp_error response')"
    by blast
  note c = C6_relay_error_is_failure
    [where p = "sample_params 100000 relay_on (Some five_buyers)" and en = sample_env
       and ?tr0.0 = "[]" and plan = plan and ?tr1.0 = tr1 and txs = txs and ?tr2.0 = tr2
       and ep = ep and ?tr3.0 = tr3 and response = response
       and tr = "[]" and tip = tip and ?tr1' = tr1' and payer = "Address ''buyer''"
       and pf = None and tipL = 100000
       and tx = "[PumpBuy 1000 1050 (Address ''feeRecipient'') (Address ''mint'')
            (AssociatedTokenAddress (Address ''mint'') (BondingCurvePDA (Address ''mint'')))
            (AssociatedTokenAddress (Address ''mint'') (Address ''buyer''))
            (Address ''buyer'')]"
       and built = built and ?tr2' = tr2' and jitoEndpoint = None and ep' = ep'
       and ?tr3' = tr3' and signers = "[\<lparr>publicKey = Address ''buyer''\<rparr>]"
       and response' = response']
  show ?thesis
    apply (rule conjI [OF j])
    apply (rule conjI)
     apply (rule exI [of _ plan], rule exI [of _ tr1], rule exI [of _ txs], rule exI [of _ tr2])
     apply (rule exI [of _ ep], rule exI [of _ tr3], rule exI [of _ response])
    using j a c apply simp
    apply (rule exI [of _ tip], rule exI [of _ tr1'], rule exI [of _ built], rule exI [of _ tr2'])
    apply (rule exI [of _ ep'], rule exI [of _ tr3'], rule exI [of _ response'])
    using b c by simp
qed

end
